theory Spec2Isabelle
  imports Complex_Main
begin

section \<open>ChillBuddy: progress aggregation and reward notification\<close>

text \<open>
  A shallow embedding of the aggregation core of the ChillBuddy front end
  (\<^verbatim>\<open>progress-dashboard.js\<close>, \<^verbatim>\<open>achievement-notifications.js\<close>,
  \<^verbatim>\<open>mood-tracker.js\<close>, \<^verbatim>\<open>journal.js\<close>, \<^verbatim>\<open>exercises.js\<close>,
  \<^verbatim>\<open>chat.js\<close> and the reward preview).  Objects are records, in-place mutation is
  explicit state passing (on a store of objects where two places can hold the same
  object), a thrown exception is the left summand of a sum type.
  DOM rendering, timers, sound and animation are not part of the model.
\<close>

subsection \<open>JavaScript numbers\<close>

text \<open>
  The numbers the aggregation handles are small integers and their quotients.  A finite
  number is modelled by an exact rational; the three non-finite results of a JavaScript
  division are kept apart, so that a division by zero is never mistaken for a number.
\<close>

datatype jsnum = Num rat | PosInf | NegInf | NaN

definition js_div :: "int \<Rightarrow> int \<Rightarrow> jsnum" where
  "js_div a b =
     (if b \<noteq> 0 then Num (of_int a / of_int b)
      else if 0 < a then PosInf
      else if a < 0 then NegInf
      else NaN)"

text \<open>\<^verbatim>\<open>x * 100\<close>.\<close>

fun js_times100 :: "jsnum \<Rightarrow> jsnum" where
  "js_times100 (Num r) = Num (r * 100)"
| "js_times100 PosInf = PosInf"
| "js_times100 NegInf = NegInf"
| "js_times100 NaN = NaN"

text \<open>\<^verbatim>\<open>Math.min(x, 100)\<close>.\<close>

fun js_min100 :: "jsnum \<Rightarrow> jsnum" where
  "js_min100 (Num r) = Num (min r 100)"
| "js_min100 PosInf = Num 100"
| "js_min100 NegInf = NegInf"
| "js_min100 NaN = NaN"

text \<open>\<^verbatim>\<open>Math.round(x)\<close>: the nearest integer, a tie going up.\<close>

fun js_round :: "jsnum \<Rightarrow> jsnum" where
  "js_round (Num r) = Num (of_int \<lfloor>r + 1 / 2\<rfloor>)"
| "js_round PosInf = PosInf"
| "js_round NegInf = NegInf"
| "js_round NaN = NaN"

subsection \<open>The progress dashboard (\<^verbatim>\<open>progress-dashboard.js\<close>)\<close>

record milestone =
  ms_value :: int
  ms_label :: string
  completed :: bool

record activity =
  act_date :: string
  act_count :: int
  act_type :: string

text \<open>
  One element of \<^verbatim>\<open>progressData\<close>.  \<^verbatim>\<open>recentActivity\<close> may be missing on an item
  (the code tests \<^verbatim>\<open>!item.recentActivity\<close>), hence the option.
\<close>

record progress_item =
  badgeId :: string
  badgeName :: string
  category :: string
  difficulty :: string
  current :: int
  target :: int
  unit :: string
  description :: string
  estimatedCompletion :: string
  dailyRate :: rat
  weeklyGoal :: int
  tips :: "string list"
  milestones :: "milestone list"
  recentActivity :: "activity list option"
  isSpecial :: bool

record user_stats =
  totalSessions :: int
  streakDays :: int
  moodEntries :: int
  copingStrategiesLearned :: int
  resourcesExplored :: int
  challengesCompleted :: int
  activeDays :: int
  averageMoodScore :: rat
  improvementRate :: rat
  lastActivity :: string

text \<open>
  The value of \<^verbatim>\<open>colors[category] || '#6b7280'\<close>: \<^verbatim>\<open>colors\<close> is a plain object, so a
  category named like a member of \<^verbatim>\<open>Object.prototype\<close> finds that member, a function or
  an object, instead of a colour.
\<close>

datatype color_value = Color string | Inherited string

definition object_prototype_names :: "string list" where
  "object_prototype_names =
     [''constructor'', ''hasOwnProperty'', ''isPrototypeOf'', ''propertyIsEnumerable'',
      ''toLocaleString'', ''toString'', ''valueOf'', ''__proto__'', ''__defineGetter__'',
      ''__defineSetter__'', ''__lookupGetter__'', ''__lookupSetter__'']"

text \<open>
  The badge object handed to \<^verbatim>\<open>showNotification\<close> and the record of one call of it
  (one \<^verbatim>\<open>achievementNotificationShown\<close> event).
\<close>

record badge_info =
  bi_id :: string
  bi_name :: string
  bi_category :: string
  bi_color :: color_value

record notification =
  n_badge :: badge_info
  n_type :: string

text \<open>
  \<^verbatim>\<open>AchievementNotificationSystem\<close>: \<^verbatim>\<open>notifications\<close> receives one element per call of
  \<^verbatim>\<open>showNotification\<close> (\<^verbatim>\<open>push\<close>); elements leave it only from timer callbacks.
\<close>

record notification_system =
  notifications :: "notification list"
  maxNotifications :: nat

text \<open>
  The part of the page state the dashboard code reads and writes: its own
  \<^verbatim>\<open>progressData\<close> and \<^verbatim>\<open>userStats\<close>, and the global
  \<^verbatim>\<open>window.achievementNotifications\<close>, which is \<^verbatim>\<open>null\<close> until the notification
  system is constructed.
\<close>

record window =
  progressData :: "progress_item list"
  userStats :: user_stats
  achievementNotifications :: "notification_system option"

text \<open>
  \<^verbatim>\<open>Array.prototype.find\<close> returns the first matching object and the code then
  assigns to its fields; on a list that is an update of the first matching element.
\<close>

fun update_first :: "('a \<Rightarrow> bool) \<Rightarrow> ('a \<Rightarrow> 'a) \<Rightarrow> 'a list \<Rightarrow> 'a list" where
  "update_first P f [] = []"
| "update_first P f (x # xs) = (if P x then f x # xs else x # update_first P f xs)"

definition find_item :: "window \<Rightarrow> string \<Rightarrow> progress_item option" where
  "find_item w bid = find (\<lambda>p. badgeId p = bid) (progressData w)"

definition getCategoryColor :: "string \<Rightarrow> color_value" where
  "getCategoryColor c =
     (if c = ''milestone'' then Color ''#f59e0b''
      else if c = ''consistency'' then Color ''#ef4444''
      else if c = ''tracking'' then Color ''#3b82f6''
      else if c = ''skills'' then Color ''#10b981''
      else if c = ''learning'' then Color ''#8b5cf6''
      else if c = ''achievement'' then Color ''#f97316''
      else if c = ''resilience'' then Color ''#ef4444''
      else if c \<in> set object_prototype_names then Inherited c
      else Color ''#6b7280'')"

definition showNotification :: "badge_info \<Rightarrow> string \<Rightarrow> notification_system \<Rightarrow> notification_system" where
  "showNotification badge ty ns =
     ns\<lparr>notifications := notifications ns @ [\<lparr>n_badge = badge, n_type = ty\<rparr>]\<rparr>"

text \<open>
  \<^verbatim>\<open>updateProgress\<close>, called with an integer (the manual update field passes
  \<^verbatim>\<open>parseInt(input.value)\<close>, the \<^verbatim>\<open>progressUpdate\<close> event its \<^verbatim>\<open>detail.progress\<close>).
  The \<^verbatim>\<open>render\<close> between the assignment and the test writes to the page only.
\<close>

definition updateProgress :: "string \<Rightarrow> int \<Rightarrow> window \<Rightarrow> window" where
  "updateProgress bid newProgress w =
     (case find_item w bid of
        None \<Rightarrow> w
      | Some item \<Rightarrow>
          let item' = item\<lparr>current := min newProgress (target item)\<rparr>;
              w' = w\<lparr>progressData :=
                     update_first (\<lambda>p. badgeId p = bid)
                       (\<lambda>p. p\<lparr>current := min newProgress (target p)\<rparr>) (progressData w)\<rparr>
          in (case achievementNotifications w' of
                Some ns \<Rightarrow>
                  if target item' \<le> current item'
                  then w'\<lparr>achievementNotifications :=
                         Some (showNotification
                           \<lparr>bi_id = badgeId item', bi_name = badgeName item',
                            bi_category = category item',
                            bi_color = getCategoryColor (category item')\<rparr>
                           ''badge-earned'' ns)\<rparr>
                  else w'
              | None \<Rightarrow> w'))"

text \<open>
  \<^verbatim>\<open>simulateActivity\<close>; \<open>today\<close> is \<^verbatim>\<open>new Date().toISOString().split('T')[0]\<close>.
\<close>

definition bump_activity :: "string \<Rightarrow> string \<Rightarrow> int \<Rightarrow> progress_item \<Rightarrow> progress_item" where
  "bump_activity today activityType amount p =
     (let ra = (case recentActivity p of None \<Rightarrow> [] | Some r \<Rightarrow> r);
          ra' = (if find (\<lambda>a. act_date a = today) ra \<noteq> None
                 then update_first (\<lambda>a. act_date a = today)
                        (\<lambda>a. a\<lparr>act_count := act_count a + amount\<rparr>) ra
                 else \<lparr>act_date = today, act_count = amount, act_type = activityType\<rparr> # ra)
      in p\<lparr>recentActivity := Some (take 7 ra')\<rparr>)"

definition simulateActivity :: "string \<Rightarrow> string \<Rightarrow> int \<Rightarrow> string \<Rightarrow> window \<Rightarrow> window" where
  "simulateActivity bid activityType amount today w =
     (case find_item w bid of
        None \<Rightarrow> w
      | Some item \<Rightarrow>
          let newProgress = min (current item + amount) (target item);
              w1 = updateProgress bid newProgress w
          in w1\<lparr>progressData :=
                 update_first (\<lambda>p. badgeId p = bid)
                   (bump_activity today activityType amount) (progressData w1)\<rparr>)"

text \<open>
  \<^verbatim>\<open>resetProgress\<close>; \<open>confirmed\<close> is the answer to the \<^verbatim>\<open>confirm\<close> dialog and
  \<open>now\<close> is \<^verbatim>\<open>new Date().toISOString()\<close>.
\<close>

definition resetProgress :: "bool \<Rightarrow> string \<Rightarrow> window \<Rightarrow> window" where
  "resetProgress confirmed now w =
     (if confirmed
      then w\<lparr>progressData :=
               map (\<lambda>p. p\<lparr>current := 0, recentActivity := Some [],
                              milestones := map (\<lambda>m. m\<lparr>completed := False\<rparr>) (milestones p)\<rparr>)
                 (progressData w),
             userStats :=
               \<lparr>totalSessions = 0, streakDays = 0, moodEntries = 0,
                copingStrategiesLearned = 0, resourcesExplored = 0,
                challengesCompleted = 0, activeDays = 0, averageMoodScore = 0,
                improvementRate = 0, lastActivity = now\<rparr>\<rparr>
      else w)"

text \<open>
  \<^verbatim>\<open>renderProgressItem\<close>: \<^verbatim>\<open>Math.min((item.current / item.target) * 100, 100)\<close> and the
  \<^verbatim>\<open>isCompleted\<close> flag.
\<close>

definition progressPercentage :: "progress_item \<Rightarrow> jsnum" where
  "progressPercentage p = js_min100 (js_times100 (js_div (current p) (target p)))"

definition isCompleted :: "progress_item \<Rightarrow> bool" where
  "isCompleted p = (target p \<le> current p)"

text \<open>
  The operations that write \<^verbatim>\<open>progressData\<close>, as a sequence of calls.  A badge counts as
  earned when the first item carrying its id has \<^verbatim>\<open>current >= target\<close>, the test
  \<^verbatim>\<open>updateProgress\<close> and \<^verbatim>\<open>renderProgressItem\<close> use.
\<close>

datatype dash_op =
    UpdateProgress string int
  | SimulateActivity string string int string
  | ResetProgress bool string

fun apply_op :: "dash_op \<Rightarrow> window \<Rightarrow> window" where
  "apply_op (UpdateProgress bid n) w = updateProgress bid n w"
| "apply_op (SimulateActivity bid ty amount today) w = simulateActivity bid ty amount today w"
| "apply_op (ResetProgress confirmed now) w = resetProgress confirmed now w"

definition run_ops :: "dash_op list \<Rightarrow> window \<Rightarrow> window" where
  "run_ops ops w = fold apply_op ops w"

definition earned :: "window \<Rightarrow> string \<Rightarrow> bool" where
  "earned w bid = (case find_item w bid of None \<Rightarrow> False | Some p \<Rightarrow> isCompleted p)"

text \<open>
  The calls that cannot take badge \<open>b\<close> with target \<open>tgt\<close> below its target: a call for
  another badge, an \<^verbatim>\<open>updateProgress\<close> with a value of at least the target, a
  \<^verbatim>\<open>simulateActivity\<close> with a non-negative amount, a reset the user declines.
\<close>

fun keeps_earned :: "string \<Rightarrow> int \<Rightarrow> dash_op \<Rightarrow> bool" where
  "keeps_earned b tgt (UpdateProgress bid n) = (bid \<noteq> b \<or> tgt \<le> n)"
| "keeps_earned b tgt (SimulateActivity bid ty amount today) = (bid \<noteq> b \<or> 0 \<le> amount)"
| "keeps_earned b tgt (ResetProgress confirmed now) = (\<not> confirmed)"

text \<open>The number of \<^verbatim>\<open>'badge-earned'\<close> notifications shown so far for a badge id.\<close>

definition badge_earned_shown :: "window \<Rightarrow> string \<Rightarrow> nat" where
  "badge_earned_shown w bid =
     (case achievementNotifications w of
        None \<Rightarrow> 0
      | Some ns \<Rightarrow>
          length (filter (\<lambda>n. bi_id (n_badge n) = bid \<and> n_type n = ''badge-earned'')
                    (notifications ns)))"

definition run_updates :: "(string \<times> int) list \<Rightarrow> window \<Rightarrow> window" where
  "run_updates ups w = fold (\<lambda>(bid, n). updateProgress bid n) ups w"

text \<open>
  An update \<open>(bid, n)\<close> reaches the target of badge \<open>b\<close> when it is for \<open>b\<close>, an item
  with that id exists and \<open>n\<close> is at least the item's target.
\<close>

definition reaches_target :: "window \<Rightarrow> string \<Rightarrow> string \<times> int \<Rightarrow> bool" where
  "reaches_target w b u =
     (fst u = b \<and> (case find_item w b of None \<Rightarrow> False | Some p \<Rightarrow> target p \<le> snd u))"

text \<open>
  \<^verbatim>\<open>loadMockData\<close>: the fixed data the dashboard substitutes when the progress
  endpoints are not available.
\<close>

definition resource_explorer :: progress_item where
  "resource_explorer =
     \<lparr>badgeId = ''resource-explorer'', badgeName = ''Resource Explorer'',
      category = ''learning'', difficulty = ''medium'', current = 18, target = 25,
      unit = ''resources'', description = ''Explore mental health resources'',
      estimatedCompletion = ''3 days'', dailyRate = 23 / 10, weeklyGoal = 16,
      tips = [''Try exploring different categories of resources'',
              ''Bookmark useful resources for later reference'',
              ''Share interesting resources with friends''],
      milestones = [\<lparr>ms_value = 5, ms_label = ''Getting Started'', completed = True\<rparr>,
                    \<lparr>ms_value = 10, ms_label = ''Explorer'', completed = True\<rparr>,
                    \<lparr>ms_value = 15, ms_label = ''Researcher'', completed = True\<rparr>,
                    \<lparr>ms_value = 20, ms_label = ''Scholar'', completed = False\<rparr>,
                    \<lparr>ms_value = 25, ms_label = ''Expert'', completed = False\<rparr>],
      recentActivity = Some [\<lparr>act_date = ''2024-01-15'', act_count = 3, act_type = ''articles''\<rparr>,
                             \<lparr>act_date = ''2024-01-14'', act_count = 2, act_type = ''videos''\<rparr>,
                             \<lparr>act_date = ''2024-01-13'', act_count = 1, act_type = ''podcast''\<rparr>],
      isSpecial = False\<rparr>"

definition challenge_crusher :: progress_item where
  "challenge_crusher =
     \<lparr>badgeId = ''challenge-crusher'', badgeName = ''Challenge Crusher'',
      category = ''achievement'', difficulty = ''hard'', current = 2, target = 5,
      unit = ''challenges'', description = ''Complete mental health challenges'',
      estimatedCompletion = ''2 weeks'', dailyRate = 1 / 5, weeklyGoal = 1,
      tips = [''Start with easier challenges to build confidence'',
              ''Set aside dedicated time for challenge completion'',
              ''Track your progress and celebrate small wins''],
      milestones = [\<lparr>ms_value = 1, ms_label = ''First Challenge'', completed = True\<rparr>,
                    \<lparr>ms_value = 2, ms_label = ''Getting Momentum'', completed = True\<rparr>,
                    \<lparr>ms_value = 3, ms_label = ''Challenge Seeker'', completed = False\<rparr>,
                    \<lparr>ms_value = 4, ms_label = ''Almost There'', completed = False\<rparr>,
                    \<lparr>ms_value = 5, ms_label = ''Challenge Master'', completed = False\<rparr>],
      recentActivity = Some [\<lparr>act_date = ''2024-01-10'', act_count = 1,
                                act_type = ''mindfulness-challenge''\<rparr>,
                             \<lparr>act_date = ''2024-01-05'', act_count = 1,
                                act_type = ''gratitude-challenge''\<rparr>],
      isSpecial = False\<rparr>"

definition monthly_milestone :: progress_item where
  "monthly_milestone =
     \<lparr>badgeId = ''monthly-milestone'', badgeName = ''Monthly Milestone'',
      category = ''consistency'', difficulty = ''hard'', current = 22, target = 30,
      unit = ''days'', description = ''Stay active for 30 consecutive days'',
      estimatedCompletion = ''8 days'', dailyRate = 1, weeklyGoal = 7,
      tips = [''Set daily reminders to check in'',
              ''Even small activities count towards your streak'',
              ''Focus on consistency over intensity''],
      milestones = [\<lparr>ms_value = 7, ms_label = ''First Week'', completed = True\<rparr>,
                    \<lparr>ms_value = 14, ms_label = ''Two Weeks Strong'', completed = True\<rparr>,
                    \<lparr>ms_value = 21, ms_label = ''Three Week Warrior'', completed = True\<rparr>,
                    \<lparr>ms_value = 28, ms_label = ''Almost There'', completed = False\<rparr>,
                    \<lparr>ms_value = 30, ms_label = ''Monthly Master'', completed = False\<rparr>],
      recentActivity = Some [\<lparr>act_date = ''2024-01-15'', act_count = 1, act_type = ''check-in''\<rparr>,
                             \<lparr>act_date = ''2024-01-14'', act_count = 1, act_type = ''mood-log''\<rparr>,
                             \<lparr>act_date = ''2024-01-13'', act_count = 1,
                                act_type = ''chat-session''\<rparr>],
      isSpecial = False\<rparr>"

definition crisis_survivor :: progress_item where
  "crisis_survivor =
     \<lparr>badgeId = ''crisis-survivor'', badgeName = ''Crisis Survivor'',
      category = ''resilience'', difficulty = ''expert'', current = 0, target = 1,
      unit = ''crisis events'',
      description = ''Successfully navigate a mental health crisis'',
      estimatedCompletion = ''When needed'', dailyRate = 0, weeklyGoal = 0,
      tips = [''Familiarize yourself with crisis resources'',
              ''Practice coping strategies regularly'',
              ''Build a support network before you need it'',
              ''Remember that seeking help is a sign of strength''],
      milestones = [\<lparr>ms_value = 1, ms_label = ''Crisis Navigator'', completed = False\<rparr>],
      recentActivity = Some [], isSpecial = True\<rparr>"

definition loadMockData :: "window \<Rightarrow> window" where
  "loadMockData w =
     w\<lparr>userStats :=
         \<lparr>totalSessions = 45, streakDays = 12, moodEntries = 28,
          copingStrategiesLearned = 8, resourcesExplored = 18, challengesCompleted = 2,
          activeDays = 22, averageMoodScore = 36 / 5, improvementRate = 153 / 10,
          lastActivity = ''2024-01-15T10:30:00Z''\<rparr>,
       progressData :=
         [resource_explorer, challenge_crusher, monthly_milestone, crisis_survivor]\<rparr>"

text \<open>
  The page once both scripts have run: a notification system with its default options
  and no notification shown yet, and a dashboard holding the mock data.
\<close>

definition mock_window :: window where
  "mock_window =
     loadMockData
       \<lparr>progressData = [],
        userStats =
          \<lparr>totalSessions = 0, streakDays = 0, moodEntries = 0,
           copingStrategiesLearned = 0, resourcesExplored = 0, challengesCompleted = 0,
           activeDays = 0, averageMoodScore = 0, improvementRate = 0, lastActivity = []\<rparr>,
        achievementNotifications = Some \<lparr>notifications = [], maxNotifications = 3\<rparr>\<rparr>"

subsection \<open>Dates\<close>

text \<open>
  An instant is its number of milliseconds since the epoch, the value a \<^verbatim>\<open>Date\<close> holds
  (an ISO string stored in an entry is read back with \<^verbatim>\<open>new Date(...)\<close> before any
  use).  The calendar is that of a zone without clock changes, so that a calendar day is
  \<^verbatim>\<open>86400000\<close> ms long: \<open>dayOf\<close> numbers the days, two instants have the same
  \<^verbatim>\<open>toDateString()\<close> exactly when they have the same \<open>dayOf\<close>,
  \<^verbatim>\<open>setDate(getDate() - 1)\<close> goes back one day and \<^verbatim>\<open>setHours(0, 0, 0, 0)\<close> goes to
  the start of the day.
\<close>

definition msPerDay :: int where
  "msPerDay = 1000 * 60 * 60 * 24"

definition dayOf :: "int \<Rightarrow> int" where
  "dayOf t = t div msPerDay"

definition setHours0 :: "int \<Rightarrow> int" where
  "setHours0 t = dayOf t * msPerDay"

text \<open>
  One reading of the clock: \<^verbatim>\<open>Date.now()\<close> and the \<^verbatim>\<open>toLocaleDateString()\<close> of the
  same instant.
\<close>

record clock =
  now :: int
  localeDateString :: string

subsection \<open>Exceptions\<close>

text \<open>The two kinds of exception the modelled code can end in.\<close>

datatype js_error = SyntaxError | TypeError

subsection \<open>The mood tracker (\<^verbatim>\<open>mood-tracker.js\<close>)\<close>

record mood =
  mood_value :: int
  emoji :: string
  mood_label :: string

record mood_entry =
  me_id :: int
  timestamp :: int
  mood :: mood
  factors :: "string list"
  me_date :: string

record mood_tracker =
  currentMood :: "mood option"
  selectedFactors :: "string list"
  moodHistory :: "mood_entry list"


definition calculateAverageMood :: "mood_tracker \<Rightarrow> jsnum" where
  "calculateAverageMood t =
     (if length (moodHistory t) = 0 then Num 0
      else js_div (foldl (\<lambda>total entry. total + mood_value (mood entry)) 0 (moodHistory t))
                  (int (length (moodHistory t))))"

text \<open>
  The loop of \<^verbatim>\<open>calculateStreak\<close>: \<open>currentDate\<close> starts at the present instant and
  goes back one day after each entry that falls on its day; the first entry that does not
  ends the loop.
\<close>

fun streak_walk :: "int \<Rightarrow> nat \<Rightarrow> mood_entry list \<Rightarrow> nat" where
  "streak_walk currentDate streak [] = streak"
| "streak_walk currentDate streak (entry # rest) =
     (if dayOf (timestamp entry) = dayOf currentDate
      then streak_walk (currentDate - msPerDay) (Suc streak) rest
      else streak)"

definition calculateStreak :: "int \<Rightarrow> mood_tracker \<Rightarrow> nat" where
  "calculateStreak present t =
     (if length (moodHistory t) = 0 then 0 else streak_walk present 0 (moodHistory t))"

subsection \<open>The journal (\<^verbatim>\<open>journal.js\<close>)\<close>

text \<open>
  An entry read back from storage may lack \<^verbatim>\<open>wordCount\<close> (the code reads
  \<^verbatim>\<open>entry.wordCount || 0\<close>) and \<^verbatim>\<open>lastModified\<close>.
\<close>

record journal_entry =
  je_id :: int
  je_date :: int
  content :: string
  je_mood :: "int option"
  prompt :: "string option"
  wordCount :: "int option"
  lastModified :: "int option"

record journal =
  entries :: "journal_entry list"
  currentEntry :: "journal_entry option"
  isEditing :: bool

text \<open>
  The \<open>journal\<close> record is what the aggregation reads: the values of the entries in
  \<^verbatim>\<open>this.entries\<close>.  The operations that write the journal work on objects, and two
  places can hold the same object (after \<^verbatim>\<open>viewEntry\<close>, \<^verbatim>\<open>this.currentEntry\<close> is an
  element of \<^verbatim>\<open>this.entries\<close>); they are modelled on a store of entry objects below.
\<close>

subsubsection \<open>Texts\<close>

text \<open>
  A text is the sequence of the bytes of its UTF-8 encoding.  \<open>white_space\<close> lists the
  characters that \<^verbatim>\<open>String.prototype.trim\<close> strips and that \<^verbatim>\<open>\s\<close> matches: tab, line
  feed, vertical tab, form feed, carriage return, space, U+00A0, U+1680, U+2000 to
  U+200A, U+2028, U+2029, U+202F, U+205F, U+3000 and U+FEFF.
\<close>

definition white_space :: "string list" where
  "white_space =
     [[CHR 0x09], [CHR 0x0A], [CHR 0x0B], [CHR 0x0C], [CHR 0x0D], [CHR 0x20],
      [CHR 0xC2, CHR 0xA0],
      [CHR 0xE1, CHR 0x9A, CHR 0x80],
      [CHR 0xE2, CHR 0x80, CHR 0x80], [CHR 0xE2, CHR 0x80, CHR 0x81],
      [CHR 0xE2, CHR 0x80, CHR 0x82], [CHR 0xE2, CHR 0x80, CHR 0x83],
      [CHR 0xE2, CHR 0x80, CHR 0x84], [CHR 0xE2, CHR 0x80, CHR 0x85],
      [CHR 0xE2, CHR 0x80, CHR 0x86], [CHR 0xE2, CHR 0x80, CHR 0x87],
      [CHR 0xE2, CHR 0x80, CHR 0x88], [CHR 0xE2, CHR 0x80, CHR 0x89],
      [CHR 0xE2, CHR 0x80, CHR 0x8A],
      [CHR 0xE2, CHR 0x80, CHR 0xA8], [CHR 0xE2, CHR 0x80, CHR 0xA9],
      [CHR 0xE2, CHR 0x80, CHR 0xAF],
      [CHR 0xE2, CHR 0x81, CHR 0x9F],
      [CHR 0xE3, CHR 0x80, CHR 0x80],
      [CHR 0xEF, CHR 0xBB, CHR 0xBF]]"

definition starts_with :: "string \<Rightarrow> string \<Rightarrow> bool" where
  "starts_with s w = (take (length w) s = w)"

text \<open>Dropping the characters of \<open>ws\<close> from the front of a text.\<close>

fun strip_front :: "string list \<Rightarrow> string \<Rightarrow> string" where
  "strip_front ws [] = []"
| "strip_front ws (c # cs) =
     (case find (starts_with (c # cs)) ws of
        None \<Rightarrow> c # cs
      | Some w \<Rightarrow> strip_front ws (drop (length w - 1) cs))"

text \<open>
  \<^verbatim>\<open>String.prototype.trim\<close>: white space is dropped from the front, and from the end by
  the same walk on the reversed text.
\<close>

definition trim :: "string \<Rightarrow> string" where
  "trim s = rev (strip_front (map rev white_space) (rev (strip_front white_space s)))"


subsubsection \<open>The journal as a store of entry objects\<close>

text \<open>
  \<open>heap\<close> gives the entry object at each address, \<open>fresh\<close> is the first address not
  yet in use; \<^verbatim>\<open>this.entries\<close> is a list of addresses and \<^verbatim>\<open>this.currentEntry\<close> an
  address or \<^verbatim>\<open>null\<close>.  The page contributes the value of the text area
  \<^verbatim>\<open>#entryTextarea\<close> (\<open>None\<close> when the journal interface was not set up: the text
  area, the word counter, the mood buttons and the entry modal come from one template) and
  the mood button that is selected, if any.
\<close>

record journal_system =
  heap :: "nat \<Rightarrow> journal_entry"
  fresh :: nat
  this_entries :: "nat list"
  this_currentEntry :: "nat option"
  this_isEditing :: bool
  textarea :: "string option"
  selectedMood :: "int option"

text \<open>What the aggregation reads of it.\<close>

definition journal_of :: "journal_system \<Rightarrow> journal" where
  "journal_of s =
     \<lparr>entries = map (heap s) (this_entries s),
      currentEntry = map_option (heap s) (this_currentEntry s),
      isEditing = this_isEditing s\<rparr>"

text \<open>An object literal or a spread copy \<^verbatim>\<open>{ ...entry }\<close>: a new object.\<close>

definition new_object :: "journal_entry \<Rightarrow> journal_system \<Rightarrow> nat \<times> journal_system" where
  "new_object e s = (fresh s, s\<lparr>heap := (heap s)(fresh s := e), fresh := Suc (fresh s)\<rparr>)"

definition startNewEntry :: "int \<Rightarrow> journal_system \<Rightarrow> journal_system" where
  "startNewEntry present s =
     (let (r, s1) = new_object \<lparr>je_id = present, je_date = present, content = [], je_mood = None,
                                prompt = None, wordCount = Some 0, lastModified = None\<rparr> s
      in s1\<lparr>this_currentEntry := Some r, this_isEditing := False\<rparr>)"












text \<open>
  The journal as the constructor leaves it once \<^verbatim>\<open>loadEntries\<close> has returned the
  entries \<open>es\<close>, each an object of its own, and the interface is set up.  Addresses
  from \<open>fresh\<close> on hold no object yet.
\<close>

definition journal_with :: "journal_entry list \<Rightarrow> journal_system" where
  "journal_with es =
     \<lparr>heap = (\<lambda>r. if r < length es then es ! r
                   else \<lparr>je_id = 0, je_date = 0, content = [], je_mood = None, prompt = None,
                         wordCount = None, lastModified = None\<rparr>),
      fresh = length es, this_entries = [0..<length es], this_currentEntry = None,
      this_isEditing = False, textarea = Some [], selectedMood = None\<rparr>"

text \<open>
  The loop of \<^verbatim>\<open>getStreak\<close>: \<open>today\<close> is the start of the present day;
  \<^verbatim>\<open>Math.floor((today - entryDate) / (1000 * 60 * 60 * 24))\<close> is the integer quotient.
\<close>

fun getStreak_loop :: "int \<Rightarrow> nat \<Rightarrow> journal_entry list \<Rightarrow> nat" where
  "getStreak_loop today streak [] = streak"
| "getStreak_loop today streak (entry # rest) =
     (let entryDate = setHours0 (je_date entry);
          daysDiff = (today - entryDate) div msPerDay
      in if daysDiff = int streak then getStreak_loop today (Suc streak) rest else streak)"

definition getStreak :: "int \<Rightarrow> journal \<Rightarrow> nat" where
  "getStreak present j =
     (if length (entries j) = 0 then 0 else getStreak_loop (setHours0 present) 0 (entries j))"

definition wordCount_or_0 :: "journal_entry \<Rightarrow> int" where
  "wordCount_or_0 entry = (case wordCount entry of None \<Rightarrow> 0 | Some n \<Rightarrow> n)"

definition getAverageWordsPerEntry :: "journal \<Rightarrow> jsnum" where
  "getAverageWordsPerEntry j =
     (if length (entries j) = 0 then Num 0
      else js_round (js_div (foldl (\<lambda>sum entry. sum + wordCount_or_0 entry) 0 (entries j))
                            (int (length (entries j)))))"

subsection \<open>The exercises (\<^verbatim>\<open>exercises.js\<close>)\<close>





subsection \<open>The streak as the specification words it\<close>

text \<open>
  Stated from the specification, not from the code: the number of consecutive calendar
  days, starting today and walking backward, that each have at least one entry, stopping
  at the first day without one.  \<open>ds\<close> lists the day of every entry; a streak cannot be
  longer than that list, which bounds the walk.
\<close>

fun consecutive_days :: "nat \<Rightarrow> int \<Rightarrow> int list \<Rightarrow> nat" where
  "consecutive_days 0 d ds = 0"
| "consecutive_days (Suc n) d ds =
     (if d \<in> set ds then Suc (consecutive_days n (d - 1) ds) else 0)"

definition streak_spec :: "int \<Rightarrow> int list \<Rightarrow> nat" where
  "streak_spec today ds = consecutive_days (length ds) today ds"

subsection \<open>The common shape of the two streak loops\<close>

text \<open>
  Both loops walk the history from its front and stop at the first entry that is not on
  the day expected next: today, then the day before, and so on.  \<open>day_walk d ds\<close> is that
  walk on the list \<open>ds\<close> of the entries' days.
\<close>

fun day_walk :: "int \<Rightarrow> int list \<Rightarrow> nat" where
  "day_walk d [] = 0"
| "day_walk d (x # xs) = (if x = d then Suc (day_walk (d - 1) xs) else 0)"

subsection \<open>Example data\<close>

text \<open>
  21:00 on 16 January 2024, day 19738; a mood history and a journal with two entries on
  that day (20:00 and 09:00) and one on the day before (10:00), newest first.
\<close>

definition example_present :: int where
  "example_present = 19738 * msPerDay + 75600000"

definition mood_logged_at :: "int \<Rightarrow> mood_entry" where
  "mood_logged_at t =
     \<lparr>me_id = t, timestamp = t,
      mood = \<lparr>mood_value = 4, emoji = ''(:'', mood_label = ''Good''\<rparr>,
      factors = [''sleep''], me_date = ''1/16/2024''\<rparr>"

definition logged_twice_today :: mood_tracker where
  "logged_twice_today =
     \<lparr>currentMood = None, selectedFactors = [],
      moodHistory = [mood_logged_at (19738 * msPerDay + 72000000),
                     mood_logged_at (19738 * msPerDay + 32400000),
                     mood_logged_at (19737 * msPerDay + 36000000)]\<rparr>"

definition written_at :: "int \<Rightarrow> int \<Rightarrow> journal_entry" where
  "written_at t n =
     \<lparr>je_id = t, je_date = t, content = ''A good day.'', je_mood = Some 4, prompt = None,
      wordCount = Some n, lastModified = Some t\<rparr>"

definition written_twice_today :: journal where
  "written_twice_today =
     \<lparr>entries = [written_at (19738 * msPerDay + 72000000) 1,
                 written_at (19738 * msPerDay + 32400000) 2,
                 written_at (19737 * msPerDay + 36000000) 2],
      currentEntry = None, isEditing = False\<rparr>"

subsection \<open>JSON text and local storage\<close>

text \<open>
  \<^verbatim>\<open>JSON.parse\<close> belongs to the host, not to the repository.  It is modelled by a parser
  of the JSON grammar (white space, the three literals, numbers, strings with their
  escapes, arrays, objects) that fails where \<^verbatim>\<open>JSON.parse\<close> throws a \<^verbatim>\<open>SyntaxError\<close>.
  A number is kept as the rational it denotes; a string is kept as the bytes of its UTF-8
  encoding, a \<^verbatim>\<open>\u\<close> escape giving the bytes of its character and a pair of surrogate
  escapes those of the character the pair encodes.  Every call of the three mutually recursive
  functions consumes at least one character, so the fuel \<open>2 * length s + 2\<close> given by
  \<open>JSON_parse\<close> is never used up.
\<close>

datatype json =
    JNull
  | JBool bool
  | JNumber rat
  | JString string
  | JArray "json list"
  | JObject "(string \<times> json) list"

definition is_json_space :: "char \<Rightarrow> bool" where
  "is_json_space c = (c = CHR '' '' \<or> c = CHR 0x09 \<or> c = CHR 0x0A \<or> c = CHR 0x0D)"

definition skip_ws :: "string \<Rightarrow> string" where
  "skip_ws s = dropWhile is_json_space s"

definition is_digit :: "char \<Rightarrow> bool" where
  "is_digit c = (48 \<le> (of_char c :: nat) \<and> (of_char c :: nat) \<le> 57)"

definition digits_value :: "string \<Rightarrow> nat" where
  "digits_value ds = foldl (\<lambda>n c. 10 * n + (of_char c - 48)) 0 ds"

definition hex_value :: "char \<Rightarrow> nat option" where
  "hex_value c =
     (let n = (of_char c :: nat)
      in if 48 \<le> n \<and> n \<le> 57 then Some (n - 48)
         else if 65 \<le> n \<and> n \<le> 70 then Some (n - 55)
         else if 97 \<le> n \<and> n \<le> 102 then Some (n - 87)
         else None)"

definition unescape :: "char \<Rightarrow> char option" where
  "unescape c =
     (if c = CHR 0x22 then Some (CHR 0x22)
      else if c = CHR 0x5C then Some (CHR 0x5C)
      else if c = CHR ''/'' then Some (CHR ''/'')
      else if c = CHR ''b'' then Some (CHR 0x08)
      else if c = CHR ''f'' then Some (CHR 0x0C)
      else if c = CHR ''n'' then Some (CHR 0x0A)
      else if c = CHR ''r'' then Some (CHR 0x0D)
      else if c = CHR ''t'' then Some (CHR 0x09)
      else None)"

definition hex4 :: "string \<Rightarrow> nat option" where
  "hex4 hs =
     (case map hex_value hs of
        [Some a, Some b, Some c, Some d] \<Rightarrow> Some (4096 * a + 256 * b + 16 * c + d)
      | _ \<Rightarrow> None)"

definition utf8 :: "nat \<Rightarrow> string" where
  "utf8 n =
     (if n < 128 then [char_of n]
      else if n < 2048 then [char_of (192 + n div 64), char_of (128 + n mod 64)]
      else if n < 65536 then
        [char_of (224 + n div 4096), char_of (128 + n div 64 mod 64), char_of (128 + n mod 64)]
      else
        [char_of (240 + n div 262144), char_of (128 + n div 4096 mod 64),
         char_of (128 + n div 64 mod 64), char_of (128 + n mod 64)])"

fun parse_string_body :: "string \<Rightarrow> (string \<times> string) option" where
  "parse_string_body [] = None"
| "parse_string_body (c # r) =
     (if c = CHR 0x22 then Some ([], r)
      else if c = CHR 0x5C then
        (case r of
           [] \<Rightarrow> None
         | e # r1 \<Rightarrow>
             if e = CHR ''u'' then
               (case r1 of
                  h1 # h2 # h3 # h4 # r2 \<Rightarrow>
                    (case hex4 [h1, h2, h3, h4] of
                       None \<Rightarrow> None
                     | Some n \<Rightarrow>
                         (case r2 of
                            b # u # l1 # l2 # l3 # l4 # r3 \<Rightarrow>
                              (case hex4 [l1, l2, l3, l4] of
                                 Some m \<Rightarrow>
                                   if b = CHR 0x5C \<and> u = CHR ''u'' \<and> 55296 \<le> n \<and> n < 56320 \<and>
                                      56320 \<le> m \<and> m < 57344
                                   then map_option
                                          (\<lambda>(s, rest).
                                             (utf8 (65536 + (n - 55296) * 1024 + (m - 56320)) @ s,
                                              rest))
                                          (parse_string_body r3)
                                   else map_option (\<lambda>(s, rest). (utf8 n @ s, rest))
                                          (parse_string_body r2)
                               | None \<Rightarrow>
                                   map_option (\<lambda>(s, rest). (utf8 n @ s, rest))
                                     (parse_string_body r2))
                          | _ \<Rightarrow>
                              map_option (\<lambda>(s, rest). (utf8 n @ s, rest))
                                (parse_string_body r2)))
                | _ \<Rightarrow> None)
             else (case unescape e of
                     None \<Rightarrow> None
                   | Some x \<Rightarrow> map_option (\<lambda>(s, rest). (x # s, rest)) (parse_string_body r1)))
      else if (of_char c :: nat) < 32 then None
      else map_option (\<lambda>(s, rest). (c # s, rest)) (parse_string_body r))"

definition parse_number :: "string \<Rightarrow> (rat \<times> string) option" where
  "parse_number s =
     (let neg = (s \<noteq> [] \<and> hd s = CHR ''-'');
          s1 = (if neg then tl s else s);
          ip = takeWhile is_digit s1;
          s2 = dropWhile is_digit s1;
          has_frac = (s2 \<noteq> [] \<and> hd s2 = CHR ''.'');
          fp = (if has_frac then takeWhile is_digit (tl s2) else []);
          s3 = (if has_frac then dropWhile is_digit (tl s2) else s2);
          has_exp = (s3 \<noteq> [] \<and> (hd s3 = CHR ''e'' \<or> hd s3 = CHR ''E''));
          s4 = (if has_exp then tl s3 else s3);
          eneg = (has_exp \<and> s4 \<noteq> [] \<and> hd s4 = CHR ''-'');
          s5 = (if has_exp \<and> s4 \<noteq> [] \<and> (hd s4 = CHR ''-'' \<or> hd s4 = CHR ''+'') then tl s4 else s4);
          ep = (if has_exp then takeWhile is_digit s5 else []);
          s6 = (if has_exp then dropWhile is_digit s5 else s3);
          mant = (of_nat (digits_value (ip @ fp)) :: rat) / 10 ^ length fp;
          scaled = (if eneg then mant / 10 ^ digits_value ep else mant * 10 ^ digits_value ep)
      in if ip = [] \<or> (hd ip = CHR ''0'' \<and> length ip \<noteq> 1) \<or> (has_frac \<and> fp = []) \<or>
            (has_exp \<and> ep = [])
         then None
         else Some (if neg then - scaled else scaled, s6))"

fun parse_value :: "nat \<Rightarrow> string \<Rightarrow> (json \<times> string) option"
  and parse_elements :: "nat \<Rightarrow> string \<Rightarrow> (json list \<times> string) option"
  and parse_members :: "nat \<Rightarrow> string \<Rightarrow> ((string \<times> json) list \<times> string) option"
where
  "parse_value 0 s = None"
| "parse_value (Suc n) s =
     (case skip_ws s of
        [] \<Rightarrow> None
      | c # r \<Rightarrow>
          if c = CHR ''n'' then (if take 3 r = ''ull'' then Some (JNull, drop 3 r) else None)
          else if c = CHR ''t'' then (if take 3 r = ''rue'' then Some (JBool True, drop 3 r) else None)
          else if c = CHR ''f'' then (if take 4 r = ''alse'' then Some (JBool False, drop 4 r) else None)
          else if c = CHR 0x22 then map_option (\<lambda>(x, rest). (JString x, rest)) (parse_string_body r)
          else if c = CHR ''['' then
            (if take 1 (skip_ws r) = '']'' then Some (JArray [], drop 1 (skip_ws r))
             else map_option (\<lambda>(xs, rest). (JArray xs, rest)) (parse_elements n r))
          else if c = CHR ''{'' then
            (if take 1 (skip_ws r) = ''}'' then Some (JObject [], drop 1 (skip_ws r))
             else map_option (\<lambda>(kvs, rest). (JObject kvs, rest)) (parse_members n r))
          else if c = CHR ''-'' \<or> is_digit c then
            map_option (\<lambda>(q, rest). (JNumber q, rest)) (parse_number (c # r))
          else None)"
| "parse_elements 0 s = None"
| "parse_elements (Suc n) s =
     (case parse_value n s of
        None \<Rightarrow> None
      | Some (v, r) \<Rightarrow>
          (case skip_ws r of
             [] \<Rightarrow> None
           | c # r1 \<Rightarrow>
               if c = CHR '','' then map_option (\<lambda>(vs, rest). (v # vs, rest)) (parse_elements n r1)
               else if c = CHR '']'' then Some ([v], r1)
               else None))"
| "parse_members 0 s = None"
| "parse_members (Suc n) s =
     (case skip_ws s of
        [] \<Rightarrow> None
      | q # r \<Rightarrow>
          if q \<noteq> CHR 0x22 then None
          else (case parse_string_body r of
                  None \<Rightarrow> None
                | Some (k, r1) \<Rightarrow>
                    (case skip_ws r1 of
                       [] \<Rightarrow> None
                     | c # r2 \<Rightarrow>
                         if c \<noteq> CHR '':'' then None
                         else (case parse_value n r2 of
                                 None \<Rightarrow> None
                               | Some (v, r3) \<Rightarrow>
                                   (case skip_ws r3 of
                                      [] \<Rightarrow> None
                                    | d # r4 \<Rightarrow>
                                        if d = CHR '','' then
                                          map_option (\<lambda>(kvs, rest). ((k, v) # kvs, rest))
                                            (parse_members n r4)
                                        else if d = CHR ''}'' then Some ([(k, v)], r4)
                                        else None)))))"

definition JSON_parse :: "string \<Rightarrow> js_error + json" where
  "JSON_parse s =
     (case parse_value (2 * length s + 2) s of
        None \<Rightarrow> Inl SyntaxError
      | Some (v, r) \<Rightarrow> if skip_ws r = [] then Inr v else Inl SyntaxError)"

text \<open>
  \<^verbatim>\<open>localStorage\<close>: \<^verbatim>\<open>getItem(k)\<close> is \<open>st k\<close>, \<open>None\<close> for \<^verbatim>\<open>null\<close>.
\<close>

type_synonym storage = "string \<rightharpoonup> string"

text \<open>
  The loaders of the three activity stores share one shape:
  \<^verbatim>\<open>try { const saved = localStorage.getItem(key); return saved ? JSON.parse(saved) : []; }
  catch (error) { console.error(...); return []; }\<close>.
  The first definition is the body of the \<^verbatim>\<open>try\<close>, the second adds the \<^verbatim>\<open>catch\<close>.
\<close>

definition load_body :: "string \<Rightarrow> storage \<Rightarrow> js_error + json" where
  "load_body key st =
     (case st key of
        None \<Rightarrow> Inr (JArray [])
      | Some saved \<Rightarrow> if saved = [] then Inr (JArray []) else JSON_parse saved)"

definition load_guarded :: "string \<Rightarrow> storage \<Rightarrow> json" where
  "load_guarded key st = (case load_body key st of Inl error \<Rightarrow> JArray [] | Inr v \<Rightarrow> v)"

definition loadEntries :: "storage \<Rightarrow> json" where
  "loadEntries st = load_guarded ''chillbuddy_journal_entries'' st"

definition loadMoodHistory :: "storage \<Rightarrow> json" where
  "loadMoodHistory st = load_guarded ''chillbuddy_mood_history'' st"

definition loadExerciseHistory :: "storage \<Rightarrow> json" where
  "loadExerciseHistory st = load_guarded ''chillbuddy_exercise_history'' st"

text \<open>
  \<^verbatim>\<open>JSON.parse(localStorage.getItem(key) || dflt)\<close>, outside of any \<^verbatim>\<open>try\<close>: the form
  the \<^verbatim>\<open>ResourcesManager\<close> constructor and \<^verbatim>\<open>RewardPreview.loadUserProgress\<close> use.
\<close>

definition parse_or :: "string \<Rightarrow> string option \<Rightarrow> js_error + json" where
  "parse_or dflt saved =
     JSON_parse (case saved of None \<Rightarrow> dflt | Some s \<Rightarrow> if s = [] then dflt else s)"

subsection \<open>The resources manager (\<^verbatim>\<open>journal.js\<close>)\<close>

text \<open>
  The fields the constructor of \<^verbatim>\<open>ResourcesManager\<close> reads from storage, and the
  constructor up to its call of \<^verbatim>\<open>init\<close>.
\<close>

record resources_manager =
  currentFilter :: string
  favoriteResources :: json
  resourceHistory :: json

definition ResourcesManager_constructor :: "storage \<Rightarrow> js_error + resources_manager" where
  "ResourcesManager_constructor st =
     (case parse_or ''[]'' (st ''favoriteResources'') of
        Inl error \<Rightarrow> Inl error
      | Inr fav \<Rightarrow>
          (case parse_or ''[]'' (st ''resourceHistory'') of
             Inl error \<Rightarrow> Inl error
           | Inr hist \<Rightarrow>
               Inr \<lparr>currentFilter = ''all'', favoriteResources = fav, resourceHistory = hist\<rparr>))"

subsection \<open>The reward preview\<close>

text \<open>
  Reading a member of a parsed value: an object gives the value of the last member with
  that name, any other value but \<^verbatim>\<open>null\<close> gives \<^verbatim>\<open>undefined\<close> (\<open>None\<close>) for the names
  read here.
\<close>

definition get_prop :: "string \<Rightarrow> json \<Rightarrow> json option" where
  "get_prop k v = (case v of JObject kvs \<Rightarrow> map_of (rev kvs) k | _ \<Rightarrow> None)"

fun truthy :: "json \<Rightarrow> bool" where
  "truthy JNull = False"
| "truthy (JBool b) = b"
| "truthy (JNumber q) = (q \<noteq> 0)"
| "truthy (JString s) = (s \<noteq> [])"
| "truthy (JArray xs) = True"
| "truthy (JObject kvs) = True"

text \<open>
  The test \<^verbatim>\<open>v > 0\<close> on a parsed value \<open>v\<close>, which converts \<open>v\<close> to a number first.
  A text converts as \<^verbatim>\<open>Number(text)\<close> does: white space around it is dropped, the empty
  text is 0, a literal with the prefix \<^verbatim>\<open>0x\<close>, \<^verbatim>\<open>0o\<close> or \<^verbatim>\<open>0b\<close> is read in its
  base, otherwise a sign, then \<^verbatim>\<open>Infinity\<close> or decimal digits with an optional fraction
  and exponent; anything else is \<^verbatim>\<open>NaN\<close>, which is not greater than 0.  An array
  converts as the text of its elements joined by commas, \<^verbatim>\<open>null\<close> giving the empty
  text; an object converts to \<^verbatim>\<open>NaN\<close>.
\<close>

definition radix_positive :: "nat \<Rightarrow> string \<Rightarrow> bool" where
  "radix_positive base ds =
     (ds \<noteq> [] \<and>
      list_all (\<lambda>d. case hex_value d of None \<Rightarrow> False | Some n \<Rightarrow> n < base) ds \<and>
      list_ex (\<lambda>d. d \<noteq> CHR ''0'') ds)"

definition decimal_value :: "string \<Rightarrow> rat option" where
  "decimal_value u =
     (let ip = takeWhile is_digit u;
          u1 = dropWhile is_digit u;
          has_dot = (u1 \<noteq> [] \<and> hd u1 = CHR ''.'');
          fp = (if has_dot then takeWhile is_digit (tl u1) else []);
          u2 = (if has_dot then dropWhile is_digit (tl u1) else u1);
          has_exp = (u2 \<noteq> [] \<and> (hd u2 = CHR ''e'' \<or> hd u2 = CHR ''E''));
          u3 = (if has_exp then tl u2 else u2);
          eneg = (has_exp \<and> u3 \<noteq> [] \<and> hd u3 = CHR ''-'');
          u4 = (if has_exp \<and> u3 \<noteq> [] \<and> (hd u3 = CHR ''-'' \<or> hd u3 = CHR ''+'') then tl u3 else u3);
          ep = (if has_exp then takeWhile is_digit u4 else []);
          u5 = (if has_exp then dropWhile is_digit u4 else u2);
          mant = (of_nat (digits_value (ip @ fp)) :: rat) / 10 ^ length fp
      in if (ip = [] \<and> fp = []) \<or> (has_exp \<and> ep = []) \<or> u5 \<noteq> [] then None
         else Some (if eneg then mant / 10 ^ digits_value ep else mant * 10 ^ digits_value ep))"

definition text_positive :: "string \<Rightarrow> bool" where
  "text_positive s =
     (let t = trim s
      in if t = [] then False
         else if take 2 t = ''0x'' \<or> take 2 t = ''0X'' then radix_positive 16 (drop 2 t)
         else if take 2 t = ''0o'' \<or> take 2 t = ''0O'' then radix_positive 8 (drop 2 t)
         else if take 2 t = ''0b'' \<or> take 2 t = ''0B'' then radix_positive 2 (drop 2 t)
         else
           let neg = (hd t = CHR ''-'');
               u = (if hd t = CHR ''-'' \<or> hd t = CHR ''+'' then tl t else t)
           in if u = ''Infinity'' then \<not> neg
              else (case decimal_value u of None \<Rightarrow> False | Some q \<Rightarrow> \<not> neg \<and> 0 < q))"

fun js_positive :: "json \<Rightarrow> bool" where
  "js_positive JNull = False"
| "js_positive (JBool b) = b"
| "js_positive (JNumber q) = (0 < q)"
| "js_positive (JString s) = text_positive s"
| "js_positive (JArray []) = False"
| "js_positive (JArray [v]) =
     (case v of
        JNull \<Rightarrow> False
      | JBool b \<Rightarrow> False
      | JObject kvs \<Rightarrow> False
      | _ \<Rightarrow> js_positive v)"
| "js_positive (JArray (v # w # vs)) = False"
| "js_positive (JObject kvs) = False"

text \<open>
  A parsed value as the array the code takes it for.  Reading \<^verbatim>\<open>.length\<close> of
  \<^verbatim>\<open>null\<close> throws.  A value without a \<^verbatim>\<open>length\<close> that is greater than 0 is passed
  over by the \<^verbatim>\<open>length > 0\<close> tests just as the empty array is.  A value that has such
  a \<^verbatim>\<open>length\<close> and is no array passes the test and fails at the first \<^verbatim>\<open>.map\<close> call.
\<close>

definition as_entries :: "json \<Rightarrow> js_error + json list" where
  "as_entries v =
     (case v of
        JNull \<Rightarrow> Inl TypeError
      | JArray xs \<Rightarrow> Inr xs
      | JString s \<Rightarrow> if s = [] then Inr [] else Inl TypeError
      | JObject kvs \<Rightarrow>
          (case map_of (rev kvs) ''length'' of
             None \<Rightarrow> Inr []
           | Some l \<Rightarrow> if js_positive l then Inl TypeError else Inr [])
      | _ \<Rightarrow> Inr [])"

text \<open>One call of \<^verbatim>\<open>updateBadgeProgress(feature, badgeName, current, total)\<close>.\<close>

record badge_update =
  bu_feature :: string
  bu_badgeName :: string
  bu_current :: int
  bu_total :: int

definition progressRatio :: "badge_update \<Rightarrow> jsnum" where
  "progressRatio u = js_div (bu_current u) (bu_total u)"

text \<open>
  The size of \<^verbatim>\<open>new Set(values)\<close>: primitive values count once per value, arrays and
  objects once per occurrence (two parsed objects are never the same object).
\<close>

fun is_primitive :: "json option \<Rightarrow> bool" where
  "is_primitive (Some (JArray xs)) = False"
| "is_primitive (Some (JObject kvs)) = False"
| "is_primitive v = True"

definition set_size :: "json option list \<Rightarrow> nat" where
  "set_size vs =
     length (remdups (filter is_primitive vs)) + length (filter (\<lambda>v. \<not> is_primitive v) vs)"

text \<open>
  \<^verbatim>\<open>calculateConsecutiveDays\<close> rests on the host's parsing of date strings and on the
  string order of \<^verbatim>\<open>toDateString()\<close>; it is a parameter \<open>ccd\<close> here.  It returns 0 or a
  count that starts at 1 and is only incremented, or throws on a \<^verbatim>\<open>null\<close> element.
\<close>

definition journal_updates :: "(json list \<Rightarrow> js_error + nat) \<Rightarrow> json list \<Rightarrow> js_error + badge_update list" where
  "journal_updates ccd journalEntries =
     (if 0 < length journalEntries
      then (case ccd journalEntries of
              Inl error \<Rightarrow> Inl error
            | Inr consecutiveDays \<Rightarrow>
                Inr [\<lparr>bu_feature = ''journal'', bu_badgeName = ''First Steps'',
                      bu_current = 1, bu_total = 1\<rparr>,
                     \<lparr>bu_feature = ''journal'', bu_badgeName = ''Reflection Master'',
                      bu_current = min (int (length journalEntries)) 10, bu_total = 10\<rparr>,
                     \<lparr>bu_feature = ''journal'', bu_badgeName = ''Daily Writer'',
                      bu_current = min (int consecutiveDays) 7, bu_total = 7\<rparr>])
      else Inr [])"

definition mood_updates :: "(json list \<Rightarrow> js_error + nat) \<Rightarrow> json list \<Rightarrow> js_error + badge_update list" where
  "mood_updates ccd moodLog =
     (if 0 < length moodLog
      then (case ccd moodLog of
              Inl error \<Rightarrow> Inl error
            | Inr consecutiveMoodDays \<Rightarrow>
                Inr [\<lparr>bu_feature = ''mood'', bu_badgeName = ''Mood Tracker'',
                      bu_current = 1, bu_total = 1\<rparr>,
                     \<lparr>bu_feature = ''mood'', bu_badgeName = ''Mood Master'',
                      bu_current = min (int consecutiveMoodDays) 14, bu_total = 14\<rparr>,
                     \<lparr>bu_feature = ''mood'', bu_badgeName = ''Emotional Awareness'',
                      bu_current = min (int (length moodLog)) 50, bu_total = 50\<rparr>])
      else Inr [])"

definition exercise_updates :: "json list \<Rightarrow> js_error + badge_update list" where
  "exercise_updates completedExercises =
     (if 0 < length completedExercises
      then if JNull \<in> set completedExercises then Inl TypeError
           else
             let uniqueTypes = set_size (map (get_prop ''type'') completedExercises);
                 mindfulnessCount =
                   length (filter (\<lambda>ex. get_prop ''category'' ex = Some (JString ''mindfulness''))
                             completedExercises)
             in Inr [\<lparr>bu_feature = ''exercise'', bu_badgeName = ''Wellness Warrior'',
                      bu_current = 1, bu_total = 1\<rparr>,
                     \<lparr>bu_feature = ''exercise'', bu_badgeName = ''Coping Champion'',
                      bu_current = min (int uniqueTypes) 5, bu_total = 5\<rparr>,
                     \<lparr>bu_feature = ''exercise'', bu_badgeName = ''Mindfulness Master'',
                      bu_current = min (int mindfulnessCount) 20, bu_total = 20\<rparr>]
      else Inr [])"

text \<open>\<^verbatim>\<open>exerciseProgress.completed || []\<close>.\<close>

definition completed_or_empty :: "json \<Rightarrow> js_error + json" where
  "completed_or_empty exerciseProgress =
     (case exerciseProgress of
        JNull \<Rightarrow> Inl TypeError
      | _ \<Rightarrow>
          (case get_prop ''completed'' exerciseProgress of
             None \<Rightarrow> Inr (JArray [])
           | Some v \<Rightarrow> if truthy v then Inr v else Inr (JArray [])))"

text \<open>A step that may throw, followed by the rest of the function.\<close>

definition and_then :: "js_error + 'a \<Rightarrow> ('a \<Rightarrow> js_error + 'b) \<Rightarrow> js_error + 'b" where
  "and_then r f = (case r of Inl error \<Rightarrow> Inl error | Inr v \<Rightarrow> f v)"

text \<open>
  \<^verbatim>\<open>RewardPreview.loadUserProgress\<close>: the three values are parsed first, with no
  \<^verbatim>\<open>try\<close> around them; the result is the list of \<^verbatim>\<open>updateBadgeProgress\<close> calls of a
  run that completes.
\<close>

definition loadUserProgress :: "(json list \<Rightarrow> js_error + nat) \<Rightarrow> storage \<Rightarrow> js_error + badge_update list" where
  "loadUserProgress ccd st =
     and_then (parse_or ''[]'' (st ''journalEntries'')) (\<lambda>journalEntries.
     and_then (parse_or ''[]'' (st ''moodHistory'')) (\<lambda>moodLog.
     and_then (parse_or ''{}'' (st ''exerciseProgress'')) (\<lambda>exerciseProgress.
     and_then (as_entries journalEntries) (\<lambda>js.
     and_then (journal_updates ccd js) (\<lambda>us1.
     and_then (as_entries moodLog) (\<lambda>ms.
     and_then (mood_updates ccd ms) (\<lambda>us2.
     and_then (completed_or_empty exerciseProgress) (\<lambda>completedExercises.
     and_then (as_entries completedExercises) (\<lambda>cs.
     and_then (exercise_updates cs) (\<lambda>us3.
     Inr (us1 @ us2 @ us3)))))))))))"

subsection \<open>The chat client (\<^verbatim>\<open>chat.js\<close>)\<close>

text \<open>
  What \<^verbatim>\<open>fetch\<close> can do: reject (the request never got an answer), or resolve with
  a response.  A response has a status and a body; reading the body (\<^verbatim>\<open>text()\<close>,
  \<^verbatim>\<open>json()\<close>) rejects when the connection breaks before the body is complete, which
  is a body of \<open>None\<close>.  \<^verbatim>\<open>response.ok\<close> is true for the statuses 200 to 299.
\<close>

record response =
  status :: nat
  statusText :: string
  body :: "string option"

datatype fetch_outcome = Rejected | Resolved response

definition ok :: "response \<Rightarrow> bool" where
  "ok r = (200 \<le> status r \<and> status r \<le> 299)"

text \<open>
  The network as the function sees it: the outcome of the \<open>k\<close>-th call of \<^verbatim>\<open>fetch\<close>,
  and the number of calls made so far.
\<close>

record network =
  outcome :: "nat \<Rightarrow> fetch_outcome"
  calls :: nat

definition fetch :: "network \<Rightarrow> fetch_outcome \<times> network" where
  "fetch net = (outcome net (calls net), net\<lparr>calls := Suc (calls net)\<rparr>)"

definition msg_authenticate :: string where
  "msg_authenticate = ''I need you to be authenticated to chat. Please refresh the page and try again.''"

definition msg_slow_down :: string where
  "msg_slow_down = ''You're sending messages too quickly. Please take a moment and try again.''"

definition msg_technical :: string where
  "msg_technical = ''I'm experiencing some technical difficulties. Please try again in a moment.''"

definition msg_sorry :: string where
  "msg_sorry = ''I'm sorry, but I couldn't process your message right now. Please try again.''"

definition msg_crisis :: string where
  "msg_crisis = ''I'm here to support you. If you're in crisis, please reach out to a mental health professional or crisis hotline.''"

definition msg_thinking :: string where
  "msg_thinking = ''I'm having a little trouble thinking right now. Could you try rephrasing your message?''"

definition msg_connecting :: string where
  "msg_connecting = ''I'm having a little trouble connecting right now. Please try again in a moment.''"

text \<open>
  The body of the \<^verbatim>\<open>try\<close> block once \<^verbatim>\<open>fetch\<close> has resolved; \<open>Inl\<close> is an exception
  on its way to the \<^verbatim>\<open>catch\<close>.  The value returned is a string or, on the success
  path, whatever \<^verbatim>\<open>data.message\<close> holds.
\<close>

definition respond :: "response \<Rightarrow> js_error + json" where
  "respond r =
     (if \<not> ok r then
        (case body r of
           None \<Rightarrow> Inl TypeError
         | Some errorText \<Rightarrow>
             if status r = 401 then Inr (JString msg_authenticate)
             else if status r = 429 then Inr (JString msg_slow_down)
             else if 500 \<le> status r then Inr (JString msg_technical)
             else Inr (JString msg_sorry))
      else
        (case body r of
           None \<Rightarrow> Inl TypeError
         | Some text \<Rightarrow>
             (case JSON_parse text of
                Inl error \<Rightarrow> Inl error
              | Inr data \<Rightarrow>
                  if truthy data \<and> (case get_prop ''message'' data of None \<Rightarrow> False | Some m \<Rightarrow> truthy m)
                  then Inr (case get_prop ''message'' data of None \<Rightarrow> JNull | Some m \<Rightarrow> m)
                  else if truthy data \<and>
                          (case get_prop ''crisis_detected'' data of None \<Rightarrow> False | Some c \<Rightarrow> truthy c)
                  then Inr (JString msg_crisis)
                  else Inr (JString msg_thinking))))"

text \<open>
  \<^verbatim>\<open>getChillBuddyResponse\<close>: one call of \<^verbatim>\<open>fetch\<close>, and the \<^verbatim>\<open>catch\<close> that turns a
  rejection or an exception into the connection message.  The function always returns.
\<close>

definition getChillBuddyResponse :: "network \<Rightarrow> json \<times> network" where
  "getChillBuddyResponse net =
     (let (result, net') = fetch net
      in (case result of
            Rejected \<Rightarrow> JString msg_connecting
          | Resolved r \<Rightarrow>
              (case respond r of Inl error \<Rightarrow> JString msg_connecting | Inr v \<Rightarrow> v),
          net'))"

subsection \<open>More example data\<close>






text \<open>
  A network on which every call gets the same response, and one on which every call
  fails.
\<close>

definition answers_with :: "nat \<Rightarrow> string option \<Rightarrow> network" where
  "answers_with code b =
     \<lparr>outcome = (\<lambda>k. Resolved \<lparr>status = code, statusText = [], body = b\<rparr>), calls = 0\<rparr>"

definition unreachable :: network where
  "unreachable = \<lparr>outcome = (\<lambda>k. Rejected), calls = 0\<rparr>"

text \<open>The range a call of \<^verbatim>\<open>updateBadgeProgress\<close> is expected to stay in.\<close>

definition fraction_ok :: "badge_update \<Rightarrow> bool" where
  "fraction_ok u = (0 \<le> bu_current u \<and> bu_current u \<le> bu_total u \<and> 0 < bu_total u)"

subsection \<open>Facts about the progress dashboard\<close>

lemma update_first_no_match: "\<forall>x\<in>set xs. \<not> P x \<Longrightarrow> update_first P f xs = xs"
  by (induction xs) auto

lemma update_first_nth:
  "i < length xs \<Longrightarrow> P (xs ! i) \<Longrightarrow> \<forall>j<i. \<not> P (xs ! j) \<Longrightarrow>
   update_first P f xs = xs[i := f (xs ! i)]"
proof (induction xs arbitrary: i)
  case Nil
  then show ?case by simp
next
  case (Cons x xs)
  show ?case
  proof (cases i)
    case 0
    with Cons.prems show ?thesis by simp
  next
    case (Suc k)
    with Cons.prems have nx: "\<not> P x" by auto
    have "update_first P f xs = xs[k := f (xs ! k)]"
    proof (rule Cons.IH)
      show "k < length xs" using Cons.prems Suc by simp
      show "P (xs ! k)" using Cons.prems Suc by simp
      show "\<forall>j<k. \<not> P (xs ! j)"
      proof (intro allI impI)
        fix j assume "j < k"
        then have "Suc j < i" using Suc by simp
        with Cons.prems have "\<not> P ((x # xs) ! Suc j)" by blast
        then show "\<not> P (xs ! j)" by simp
      qed
    qed
    with nx Suc show ?thesis by simp
  qed
qed

lemma find_update_first_same:
  "(\<And>x. P (f x) = P x) \<Longrightarrow> find P (update_first P f xs) = map_option f (find P xs)"
  by (induction xs) auto

lemma find_update_first_other:
  "(\<And>x. Q (f x) = Q x) \<Longrightarrow> (\<And>x. Q x \<Longrightarrow> \<not> P x) \<Longrightarrow>
   find Q (update_first P f xs) = find Q xs"
  by (induction xs) auto

lemma progressData_updateProgress:
  "progressData (updateProgress bid n w) =
     update_first (\<lambda>p. badgeId p = bid) (\<lambda>p. p\<lparr>current := min n (target p)\<rparr>) (progressData w)"
proof (cases "find_item w bid")
  case None
  then have "\<forall>x\<in>set (progressData w). badgeId x \<noteq> bid"
    by (simp add: find_item_def find_None_iff)
  then have "update_first (\<lambda>p. badgeId p = bid) (\<lambda>p. p\<lparr>current := min n (target p)\<rparr>)
      (progressData w) = progressData w"
    by (rule update_first_no_match)
  with None show ?thesis by (simp add: updateProgress_def)
next
  case (Some item)
  then show ?thesis
    by (simp add: updateProgress_def Let_def split: option.splits)
qed

lemma userStats_updateProgress: "userStats (updateProgress bid n w) = userStats w"
  by (simp add: updateProgress_def Let_def split: option.splits)

lemma find_item_updateProgress_same:
  "find_item (updateProgress bid n w) bid =
     map_option (\<lambda>p. p\<lparr>current := min n (target p)\<rparr>) (find_item w bid)"
  unfolding find_item_def progressData_updateProgress
  by (rule find_update_first_same) simp

lemma find_item_updateProgress_other:
  "bid \<noteq> b \<Longrightarrow> find_item (updateProgress bid n w) b = find_item w b"
  unfolding find_item_def progressData_updateProgress
  by (rule find_update_first_other) auto

lemma progressData_simulateActivity:
  "progressData (simulateActivity bid ty amount today w) =
     update_first (\<lambda>p. badgeId p = bid)
       (\<lambda>p. bump_activity today ty amount (p\<lparr>current := min (current p + amount) (target p)\<rparr>))
       (progressData w)"
proof (cases "find_item w bid")
  case None
  then have "\<forall>x\<in>set (progressData w). badgeId x \<noteq> bid"
    by (simp add: find_item_def find_None_iff)
  then have "update_first (\<lambda>p. badgeId p = bid)
       (\<lambda>p. bump_activity today ty amount (p\<lparr>current := min (current p + amount) (target p)\<rparr>))
       (progressData w) = progressData w"
    by (rule update_first_no_match)
  with None show ?thesis by (simp add: simulateActivity_def)
next
  case (Some item)
  have twice: "update_first P g (update_first P f xs) = update_first P (\<lambda>x. g (f x)) xs"
    if "\<And>x. P (f x) = P x" for P :: "progress_item \<Rightarrow> bool" and f g xs
    using that by (induction xs) auto
  have first: "update_first (\<lambda>p. badgeId p = bid) (\<lambda>p. f p (current item) (target item)) xs
      = update_first (\<lambda>p. badgeId p = bid) (\<lambda>p. f p (current p) (target p)) xs"
    if "find (\<lambda>p. badgeId p = bid) xs = Some item" for f :: "progress_item \<Rightarrow> int \<Rightarrow> int \<Rightarrow> progress_item" and xs
    using that by (induction xs) (auto split: if_splits)
  have "progressData (simulateActivity bid ty amount today w) =
      update_first (\<lambda>p. badgeId p = bid) (bump_activity today ty amount)
        (update_first (\<lambda>p. badgeId p = bid)
           (\<lambda>p. p\<lparr>current := min (min (current item + amount) (target item)) (target p)\<rparr>)
           (progressData w))"
    using Some by (simp add: simulateActivity_def Let_def progressData_updateProgress)
  also have "\<dots> = update_first (\<lambda>p. badgeId p = bid)
        (\<lambda>p. bump_activity today ty amount
            (p\<lparr>current := min (min (current item + amount) (target item)) (target p)\<rparr>))
        (progressData w)"
    by (rule twice) simp
  also have "\<dots> = update_first (\<lambda>p. badgeId p = bid)
        (\<lambda>p. bump_activity today ty amount
            (p\<lparr>current := min (min (current p + amount) (target p)) (target p)\<rparr>))
        (progressData w)"
    using first [of "progressData w"
        "\<lambda>p c t. bump_activity today ty amount (p\<lparr>current := min (min (c + amount) t) (target p)\<rparr>)"]
      Some by (simp add: find_item_def)
  finally show ?thesis by (simp add: min.assoc)
qed

lemma userStats_simulateActivity: "userStats (simulateActivity bid ty amount today w) = userStats w"
  by (simp add: simulateActivity_def Let_def userStats_updateProgress split: option.splits)

lemma bump_activity_fields:
  "badgeId (bump_activity today ty amount p) = badgeId p"
  "current (bump_activity today ty amount p) = current p"
  "target (bump_activity today ty amount p) = target p"
  by (simp_all add: bump_activity_def Let_def)

text \<open>
  Claim C10.  \<^verbatim>\<open>updateProgress(badgeId, n)\<close> with an integer \<open>n\<close>: when no item carries the
  id, the whole state is returned as it was (and so it is by \<^verbatim>\<open>simulateActivity\<close>).
  Otherwise, with \<open>i\<close> the position of the first item carrying the id, the new
  \<^verbatim>\<open>progressData\<close> is the old one with item \<open>i\<close> replaced by itself with
  \<^verbatim>\<open>current = min(n, target)\<close>: the other items and the other fields of the item are
  untouched, and so is \<^verbatim>\<open>userStats\<close>.  Hence \<^verbatim>\<open>current\<close> never exceeds \<^verbatim>\<open>target\<close>
  afterwards, while a negative \<open>n\<close> is stored as it is.  \<^verbatim>\<open>simulateActivity\<close> sets
  \<^verbatim>\<open>current\<close> to \<^verbatim>\<open>min(current + amount, target)\<close> on the same item and, besides
  that, rewrites only the item's \<^verbatim>\<open>recentActivity\<close>.
\<close>

theorem updateProgress_frame:
  "((\<forall>p\<in>set (progressData w). badgeId p \<noteq> bid) \<longrightarrow>
      updateProgress bid n w = w \<and> simulateActivity bid ty amount today w = w) \<and>
   (i < length (progressData w) \<and> badgeId (progressData w ! i) = bid \<and>
    (\<forall>j<i. badgeId (progressData w ! j) \<noteq> bid) \<longrightarrow>
      progressData (updateProgress bid n w) =
        (progressData w)[i := (progressData w ! i)\<lparr>current := min n (target (progressData w ! i))\<rparr>] \<and>
      userStats (updateProgress bid n w) = userStats w \<and>
      current (progressData (updateProgress bid n w) ! i) \<le> target (progressData (updateProgress bid n w) ! i) \<and>
      (n < 0 \<and> 0 \<le> target (progressData w ! i) \<longrightarrow> current (progressData (updateProgress bid n w) ! i) = n) \<and>
      progressData (simulateActivity bid ty amount today w) =
        (progressData w)[i := (progressData w ! i)
           \<lparr>current := min (current (progressData w ! i) + amount) (target (progressData w ! i)),
            recentActivity := recentActivity (bump_activity today ty amount (progressData w ! i))\<rparr>] \<and>
      userStats (simulateActivity bid ty amount today w) = userStats w)"
proof (intro conjI impI)
  assume none: "\<forall>p\<in>set (progressData w). badgeId p \<noteq> bid"
  then have f: "find_item w bid = None"
    by (simp add: find_item_def find_None_iff)
  show "updateProgress bid n w = w" using f by (simp add: updateProgress_def)
  show "simulateActivity bid ty amount today w = w" using f by (simp add: simulateActivity_def)
next
  assume h: "i < length (progressData w) \<and> badgeId (progressData w ! i) = bid \<and>
    (\<forall>j<i. badgeId (progressData w ! j) \<noteq> bid)"
  let ?xs = "progressData w"
  have up: "progressData (updateProgress bid n w) = ?xs[i := (?xs ! i)\<lparr>current := min n (target (?xs ! i))\<rparr>]"
    unfolding progressData_updateProgress
    using h by (intro update_first_nth) auto
  show "progressData (updateProgress bid n w) = ?xs[i := (?xs ! i)\<lparr>current := min n (target (?xs ! i))\<rparr>]"
    by (rule up)
  show "userStats (updateProgress bid n w) = userStats w"
    by (rule userStats_updateProgress)
  show "current (progressData (updateProgress bid n w) ! i) \<le> target (progressData (updateProgress bid n w) ! i)"
    using h by (simp add: up)
  show "userStats (simulateActivity bid ty amount today w) = userStats w"
    by (rule userStats_simulateActivity)
  have sim: "progressData (simulateActivity bid ty amount today w) =
      ?xs[i := bump_activity today ty amount ((?xs ! i)\<lparr>current := min (current (?xs ! i) + amount) (target (?xs ! i))\<rparr>)]"
    unfolding progressData_simulateActivity
    using h by (intro update_first_nth) auto
  show "progressData (simulateActivity bid ty amount today w) =
        ?xs[i := (?xs ! i)\<lparr>current := min (current (?xs ! i) + amount) (target (?xs ! i)),
            recentActivity := recentActivity (bump_activity today ty amount (?xs ! i))\<rparr>]"
    unfolding sim by (simp add: bump_activity_def Let_def)
  { assume "n < 0 \<and> 0 \<le> target (progressData w ! i)"
    then show "current (progressData (updateProgress bid n w) ! i) = n"
      using h by (simp add: up) }
qed

lemma earned_updateProgress:
  assumes "find_item w b = Some p" "target p \<le> current p" "bid \<noteq> b \<or> target p \<le> n"
  shows "\<exists>p'. find_item (updateProgress bid n w) b = Some p' \<and> target p' = target p \<and>
               target p' \<le> current p'"
proof (cases "bid = b")
  case True
  with assms show ?thesis by (simp add: find_item_updateProgress_same)
next
  case False
  with assms show ?thesis by (simp add: find_item_updateProgress_other)
qed

lemma earned_simulateActivity:
  assumes "find_item w b = Some p" "target p \<le> current p" "bid \<noteq> b \<or> 0 \<le> amount"
  shows "\<exists>p'. find_item (simulateActivity bid ty amount today w) b = Some p' \<and>
               target p' = target p \<and> target p' \<le> current p'"
proof (cases "bid = b")
  case True
  have "find_item (simulateActivity bid ty amount today w) bid =
      map_option (\<lambda>p. bump_activity today ty amount (p\<lparr>current := min (current p + amount) (target p)\<rparr>))
        (find_item w bid)"
    unfolding find_item_def progressData_simulateActivity
    by (rule find_update_first_same) (simp add: bump_activity_fields)
  with True assms show ?thesis by (simp add: bump_activity_fields)
next
  case False
  have "find_item (simulateActivity bid ty amount today w) b = find_item w b"
    unfolding find_item_def progressData_simulateActivity
    by (rule find_update_first_other) (use False in \<open>auto simp: bump_activity_fields\<close>)
  with assms show ?thesis by simp
qed

lemma earned_run_ops:
  "find_item w b = Some p \<Longrightarrow> target p \<le> current p \<Longrightarrow>
   list_all (keeps_earned b (target p)) ops \<Longrightarrow>
   \<exists>p'. find_item (fold apply_op ops w) b = Some p' \<and> target p' = target p \<and>
        target p' \<le> current p'"
proof (induction ops arbitrary: w p)
  case Nil
  then show ?case by simp
next
  case (Cons op ops)
  have "\<exists>p'. find_item (apply_op op w) b = Some p' \<and> target p' = target p \<and> target p' \<le> current p'"
  proof (cases op)
    case (UpdateProgress bid n)
    with Cons.prems show ?thesis by (simp add: earned_updateProgress)
  next
    case (SimulateActivity bid ty amount today)
    with Cons.prems show ?thesis by (simp add: earned_simulateActivity)
  next
    case (ResetProgress confirmed now)
    with Cons.prems show ?thesis by (simp add: resetProgress_def)
  qed
  then obtain p' where p': "find_item (apply_op op w) b = Some p'" "target p' = target p"
      "target p' \<le> current p'" by blast
  from Cons.prems have "list_all (keeps_earned b (target p')) ops" by (simp add: p')
  from Cons.IH [OF p'(1) p'(3) this] show ?case by (simp add: p')
qed

text \<open>
  Claim C8, as amended.  A badge whose \<^verbatim>\<open>current\<close> has reached its \<^verbatim>\<open>target\<close> stays
  at or above the target through every sequence of dashboard calls made only of calls for
  other badges, \<^verbatim>\<open>updateProgress\<close> calls with a value of at least the target,
  \<^verbatim>\<open>simulateActivity\<close> calls with a non-negative amount and declined resets.
\<close>

theorem earned_preserved:
  "find_item w b = Some p \<Longrightarrow> isCompleted p \<Longrightarrow>
   list_all (keeps_earned b (target p)) ops \<Longrightarrow> earned (run_ops ops w) b"
  using earned_run_ops [of w b p ops]
  by (auto simp: earned_def run_ops_def isCompleted_def)

lemma badge_earned_shown_updateProgress:
  assumes "achievementNotifications w = Some ns"
  shows "badge_earned_shown (updateProgress bid n w) b =
         badge_earned_shown w b +
         (if bid = b \<and> (case find_item w b of None \<Rightarrow> False | Some p \<Rightarrow> target p \<le> n)
          then 1 else 0)"
proof (cases "find_item w bid")
  case None
  then show ?thesis by (auto simp: updateProgress_def)
next
  case (Some item)
  then have id: "badgeId item = bid"
    by (auto simp: find_item_def find_Some_iff)
  show ?thesis
  proof (cases "bid = b")
    case True
    with Some id assms show ?thesis
      by (simp add: updateProgress_def Let_def badge_earned_shown_def showNotification_def)
  next
    case False
    with Some id assms show ?thesis
      by (simp add: updateProgress_def Let_def badge_earned_shown_def showNotification_def)
  qed
qed

lemma notifier_updateProgress:
  "achievementNotifications w = Some ns \<Longrightarrow>
   \<exists>ns'. achievementNotifications (updateProgress bid n w) = Some ns'"
  by (simp add: updateProgress_def Let_def split: option.splits)

lemma target_updateProgress:
  "map_option target (find_item (updateProgress bid n w) b) = map_option target (find_item w b)"
proof (cases "bid = b")
  case True
  then show ?thesis
    by (cases "find_item w b") (simp_all add: find_item_updateProgress_same)
next
  case False
  then show ?thesis by (simp add: find_item_updateProgress_other)
qed

lemma reaches_target_cong:
  "map_option target (find_item w' b) = map_option target (find_item w b) \<Longrightarrow>
   reaches_target w' b = reaches_target w b"
  by (auto simp: reaches_target_def fun_eq_iff split: option.splits)

text \<open>
  Claim C2, as amended.  With a notification system installed, a sequence of
  \<^verbatim>\<open>updateProgress\<close> calls shows one \<^verbatim>\<open>'badge-earned'\<close> notification for a badge per
  call that is for that badge and carries a value of at least its target: the count grows
  with every such call, the first or a later one, and with no other call.
\<close>

theorem badge_notifications_counted:
  "achievementNotifications w = Some ns \<Longrightarrow>
   badge_earned_shown (run_updates ups w) b =
     badge_earned_shown w b + length (filter (reaches_target w b) ups)"
proof (induction ups arbitrary: w ns)
  case Nil
  then show ?case by (simp add: run_updates_def)
next
  case (Cons u ups)
  obtain bid n where u: "u = (bid, n)" by (cases u)
  let ?w = "updateProgress bid n w"
  from notifier_updateProgress [OF Cons.prems] obtain ns' where
    ns': "achievementNotifications ?w = Some ns'" by blast
  have "badge_earned_shown (run_updates ups ?w) b =
      badge_earned_shown ?w b + length (filter (reaches_target ?w b) ups)"
    by (rule Cons.IH [OF ns'])
  moreover have "reaches_target ?w b = reaches_target w b"
    by (rule reaches_target_cong) (rule target_updateProgress)
  moreover have "badge_earned_shown ?w b =
      badge_earned_shown w b + (if reaches_target w b u then 1 else 0)"
    using badge_earned_shown_updateProgress [OF Cons.prems, of bid n b]
    by (auto simp: reaches_target_def u split: option.splits)
  ultimately show ?case by (simp add: run_updates_def u)
qed

theorem updateProgress_frame_witness:
  "updateProgress ''no-such-badge'' 7 mock_window = mock_window \<and>
   simulateActivity ''no-such-badge'' ''action'' 1 ''2024-01-16'' mock_window = mock_window \<and>
   progressData (updateProgress ''challenge-crusher'' 9 mock_window) =
     [resource_explorer, challenge_crusher\<lparr>current := 5\<rparr>, monthly_milestone, crisis_survivor] \<and>
   userStats (updateProgress ''challenge-crusher'' 9 mock_window) = userStats mock_window"
proof -
  have none: "\<forall>p\<in>set (progressData mock_window). badgeId p \<noteq> ''no-such-badge''"
    by (simp add: mock_window_def loadMockData_def resource_explorer_def challenge_crusher_def
        monthly_milestone_def crisis_survivor_def)
  have first: "1 < length (progressData mock_window) \<and>
      badgeId (progressData mock_window ! 1) = ''challenge-crusher'' \<and>
      (\<forall>j<1. badgeId (progressData mock_window ! j) \<noteq> ''challenge-crusher'')"
    by (simp add: mock_window_def loadMockData_def resource_explorer_def challenge_crusher_def)
  have items: "progressData mock_window =
      [resource_explorer, challenge_crusher, monthly_milestone, crisis_survivor]"
    by (simp add: mock_window_def loadMockData_def)
  have tgt: "target challenge_crusher = 5"
    by (simp add: challenge_crusher_def)
  from updateProgress_frame [of mock_window "''no-such-badge''" 7 "''action''" 1 "''2024-01-16''" 0]
    none
  have a: "updateProgress ''no-such-badge'' 7 mock_window = mock_window \<and>
      simulateActivity ''no-such-badge'' ''action'' 1 ''2024-01-16'' mock_window = mock_window"
    by blast
  from updateProgress_frame [of mock_window "''challenge-crusher''" 9 "''action''" 1 "''2024-01-16''" 1]
    first
  have b: "progressData (updateProgress ''challenge-crusher'' 9 mock_window) =
        (progressData mock_window)[1 := (progressData mock_window ! 1)
           \<lparr>current := min 9 (target (progressData mock_window ! 1))\<rparr>] \<and>
      userStats (updateProgress ''challenge-crusher'' 9 mock_window) = userStats mock_window"
    by blast
  from a b show ?thesis by (simp add: items tgt)
qed

text \<open>
  Claim C8 as it is stated fails: a badge that has reached its target is taken back below
  it by an \<^verbatim>\<open>updateProgress\<close> with a smaller value and by a confirmed
  \<^verbatim>\<open>resetProgress\<close>.
\<close>

theorem earned_not_terminal:
  "earned (updateProgress ''crisis-survivor'' 1 mock_window) ''crisis-survivor'' \<and>
   \<not> earned (run_ops [UpdateProgress ''crisis-survivor'' 0]
              (updateProgress ''crisis-survivor'' 1 mock_window)) ''crisis-survivor'' \<and>
   \<not> earned (run_ops [ResetProgress True ''2024-01-16T08:00:00.000Z'']
              (updateProgress ''crisis-survivor'' 1 mock_window)) ''crisis-survivor''"
  by (simp add: earned_def run_ops_def updateProgress_def resetProgress_def find_item_def
      isCompleted_def mock_window_def loadMockData_def Let_def showNotification_def
      resource_explorer_def challenge_crusher_def monthly_milestone_def crisis_survivor_def)

theorem earned_preserved_witness:
  "earned (run_ops [SimulateActivity ''crisis-survivor'' ''action'' 1 ''2024-01-16'',
                    UpdateProgress ''resource-explorer'' 3,
                    UpdateProgress ''crisis-survivor'' 4,
                    ResetProgress False ''2024-01-16T08:00:00.000Z'']
             (updateProgress ''crisis-survivor'' 1 mock_window)) ''crisis-survivor''"
proof -
  have f: "find_item (updateProgress ''crisis-survivor'' 1 mock_window) ''crisis-survivor'' =
      Some (crisis_survivor\<lparr>current := 1\<rparr>)"
    by (simp add: updateProgress_def find_item_def mock_window_def loadMockData_def Let_def
        showNotification_def resource_explorer_def challenge_crusher_def monthly_milestone_def
        crisis_survivor_def)
  have c: "isCompleted (crisis_survivor\<lparr>current := 1\<rparr>)"
    by (simp add: isCompleted_def crisis_survivor_def)
  have k: "list_all (keeps_earned ''crisis-survivor'' (target (crisis_survivor\<lparr>current := 1\<rparr>)))
      [SimulateActivity ''crisis-survivor'' ''action'' 1 ''2024-01-16'',
       UpdateProgress ''resource-explorer'' 3,
       UpdateProgress ''crisis-survivor'' 4,
       ResetProgress False ''2024-01-16T08:00:00.000Z'']"
    by (simp add: crisis_survivor_def)
  from earned_preserved [OF f c k] show ?thesis .
qed

text \<open>
  Claim C2 as it is stated fails: nothing records which badges were already announced, and
  a second update at the target shows a second notification.
\<close>

theorem badge_notified_twice:
  "badge_earned_shown mock_window ''crisis-survivor'' = 0 \<and>
   badge_earned_shown (run_updates [(''crisis-survivor'', 1)] mock_window) ''crisis-survivor'' = 1 \<and>
   badge_earned_shown (run_updates [(''crisis-survivor'', 1), (''crisis-survivor'', 1)] mock_window)
     ''crisis-survivor'' = 2"
  by (simp add: badge_earned_shown_def run_updates_def updateProgress_def find_item_def
      mock_window_def loadMockData_def Let_def showNotification_def
      resource_explorer_def challenge_crusher_def monthly_milestone_def crisis_survivor_def)

theorem badge_notifications_counted_witness:
  "badge_earned_shown
     (run_updates [(''crisis-survivor'', 0), (''crisis-survivor'', 1), (''resource-explorer'', 30),
                   (''crisis-survivor'', 2)] mock_window) ''crisis-survivor'' = 2"
proof -
  have n: "achievementNotifications mock_window = Some \<lparr>notifications = [], maxNotifications = 3\<rparr>"
    by (simp add: mock_window_def loadMockData_def)
  have z: "badge_earned_shown mock_window ''crisis-survivor'' = 0"
    by (simp add: badge_earned_shown_def n)
  have r: "length (filter (reaches_target mock_window ''crisis-survivor'')
      [(''crisis-survivor'', 0), (''crisis-survivor'', 1), (''resource-explorer'', 30),
       (''crisis-survivor'', 2)]) = 2"
    by (simp add: reaches_target_def find_item_def mock_window_def loadMockData_def
        resource_explorer_def challenge_crusher_def monthly_milestone_def crisis_survivor_def)
  from badge_notifications_counted [OF n, of _ "''crisis-survivor''"] z r show ?thesis by simp
qed

text \<open>
  Claim C3 at the input where it fails.  A manual update with \<open>-5\<close> is stored as it is
  (the value is clamped from above only) and the percentage rendered for the item,
  \<^verbatim>\<open>Math.min((current / target) * 100, 100)\<close>, is \<open>-20\<close>: the fraction is \<open>-1/5\<close>, below 0.
\<close>

theorem negative_progress_fraction:
  "map_option current (find_item (updateProgress ''resource-explorer'' (- 5) mock_window)
      ''resource-explorer'') = Some (- 5) \<and>
   map_option progressPercentage (find_item (updateProgress ''resource-explorer'' (- 5) mock_window)
      ''resource-explorer'') = Some (Num (- 20))"
  by (simp add: updateProgress_def find_item_def mock_window_def loadMockData_def Let_def
      progressPercentage_def js_div_def resource_explorer_def)

text \<open>
  What does hold of the rendered percentage: it never exceeds 100 for a positive target,
  and it is not negative as long as the stored counter is not.
\<close>

lemma progressPercentage_bounds:
  assumes "0 < target p"
  shows "\<exists>r. progressPercentage p = Num r \<and> r \<le> 100 \<and> (0 \<le> current p \<longrightarrow> 0 \<le> r) \<and>
             r = min (of_int (current p) / of_int (target p) * 100) 100"
  using assms by (simp add: progressPercentage_def js_div_def zero_le_divide_iff)

subsection \<open>Facts about the streaks\<close>

text \<open>
  Both streak functions are the walk \<open>day_walk\<close> from the present day on the days of the
  entries; on a history with at most one entry per day, none of them in the future, that
  walk is the streak of the specification.
\<close>

lemma dayOf_back: "dayOf (t - msPerDay) = dayOf t - 1"
proof -
  have nz: "msPerDay \<noteq> 0" by (simp add: msPerDay_def)
  have "(t - msPerDay + msPerDay) div msPerDay = (t - msPerDay) div msPerDay + 1"
    using nz by (rule div_add_self2)
  then show ?thesis by (simp add: dayOf_def)
qed

lemma streak_walk_days:
  "streak_walk cur k es = k + day_walk (dayOf cur) (map (\<lambda>e. dayOf (timestamp e)) es)"
  by (induction es arbitrary: cur k) (simp_all add: dayOf_back)

lemma daysDiff_days:
  "(setHours0 a - setHours0 b) div msPerDay = dayOf a - dayOf b"
proof -
  have "(dayOf a * msPerDay - dayOf b * msPerDay) = (dayOf a - dayOf b) * msPerDay"
    by (simp add: algebra_simps)
  then show ?thesis by (simp add: setHours0_def msPerDay_def)
qed

lemma getStreak_loop_days:
  "getStreak_loop (setHours0 present) k es =
     k + day_walk (dayOf present - int k) (map (\<lambda>e. dayOf (je_date e)) es)"
proof (induction es arbitrary: k)
  case Nil
  then show ?case by simp
next
  case (Cons e es)
  have eq: "(dayOf present - dayOf (je_date e) = int k) = (dayOf (je_date e) = dayOf present - int k)"
    by auto
  have suc: "dayOf present - int (Suc k) = dayOf present - int k - 1" by simp
  show ?case
    unfolding getStreak_loop.simps Let_def daysDiff_days eq Cons.IH suc by simp
qed

lemma calculateStreak_days:
  "calculateStreak present t = day_walk (dayOf present) (map (\<lambda>e. dayOf (timestamp e)) (moodHistory t))"
  by (simp add: calculateStreak_def streak_walk_days)

lemma getStreak_days:
  "getStreak present j = day_walk (dayOf present) (map (\<lambda>e. dayOf (je_date e)) (entries j))"
  by (simp add: getStreak_def getStreak_loop_days)

lemma consecutive_days_skip:
  "d < x \<Longrightarrow> consecutive_days n d (x # xs) = consecutive_days n d xs"
  by (induction n arbitrary: d) auto

lemma day_walk_spec:
  "sorted_wrt (>) ds \<Longrightarrow> \<forall>x\<in>set ds. x \<le> d \<Longrightarrow> length ds \<le> n \<Longrightarrow>
   consecutive_days n d ds = day_walk d ds"
proof (induction ds arbitrary: d n)
  case Nil
  then show ?case by (cases n) simp_all
next
  case (Cons x xs)
  then obtain m where n: "n = Suc m" by (cases n) auto
  show ?case
  proof (cases "x = d")
    case True
    have "consecutive_days m (d - 1) (x # xs) = consecutive_days m (d - 1) xs"
      using True by (intro consecutive_days_skip) simp
    also have "\<dots> = day_walk (d - 1) xs"
      using Cons.prems True n by (intro Cons.IH) auto
    finally show ?thesis using True n by simp
  next
    case False
    with Cons.prems have "d \<notin> set (x # xs)" by auto
    with False n show ?thesis by simp
  qed
qed

lemma streak_one_entry_per_day:
  assumes "sorted_wrt (>) (map (\<lambda>e. dayOf (timestamp e)) (moodHistory t))"
    and "\<forall>e\<in>set (moodHistory t). dayOf (timestamp e) \<le> dayOf present"
  shows "calculateStreak present t =
         streak_spec (dayOf present) (map (\<lambda>e. dayOf (timestamp e)) (moodHistory t))"
  using assms by (simp add: calculateStreak_days streak_spec_def day_walk_spec)

lemma getStreak_one_entry_per_day:
  assumes "sorted_wrt (>) (map (\<lambda>e. dayOf (je_date e)) (entries j))"
    and "\<forall>e\<in>set (entries j). dayOf (je_date e) \<le> dayOf present"
  shows "getStreak present j =
         streak_spec (dayOf present) (map (\<lambda>e. dayOf (je_date e)) (entries j))"
  using assms by (simp add: getStreak_days streak_spec_def day_walk_spec)

text \<open>
  Claim C1 at the input where it fails.  With two entries today and one yesterday the
  streak of the specification is 2: today and yesterday each have an entry.  Both
  \<^verbatim>\<open>MoodTracker.calculateStreak\<close> and \<^verbatim>\<open>JournalSystem.getStreak\<close> return 1: after the
  first entry of today they expect yesterday, meet the second entry of today and stop.
\<close>

theorem streak_ends_at_second_entry_of_a_day:
  "calculateStreak example_present logged_twice_today = 1 \<and>
   streak_spec (dayOf example_present)
     (map (\<lambda>e. dayOf (timestamp e)) (moodHistory logged_twice_today)) = 2 \<and>
   getStreak example_present written_twice_today = 1 \<and>
   streak_spec (dayOf example_present)
     (map (\<lambda>e. dayOf (je_date e)) (entries written_twice_today)) = 2"
  by (simp add: calculateStreak_def getStreak_def streak_spec_def example_present_def
      logged_twice_today_def written_twice_today_def mood_logged_at_def written_at_def
      dayOf_def setHours0_def msPerDay_def Let_def numeral_3_eq_3)

subsection \<open>Facts about the averages\<close>

lemma foldl_plus_sum: "foldl (\<lambda>total x. total + f x) (a::int) xs = a + sum_list (map f xs)"
  by (induction xs arbitrary: a) simp_all

text \<open>
  Claim C7, as amended.  \<^verbatim>\<open>calculateAverageMood\<close> is 0 on the empty history and the
  arithmetic mean of the mood values otherwise.  \<^verbatim>\<open>getAverageWordsPerEntry\<close> is 0 on
  the empty journal and otherwise the arithmetic mean of the word counts (a missing count
  being 0) rounded to the nearest integer, a tie going up.  Both are numbers, never
  \<^verbatim>\<open>NaN\<close>.
\<close>

theorem averages_computed:
  "calculateAverageMood t =
     Num (if moodHistory t = [] then 0
          else of_int (sum_list (map (\<lambda>e. mood_value (mood e)) (moodHistory t))) /
               of_nat (length (moodHistory t))) \<and>
   getAverageWordsPerEntry j =
     Num (if entries j = [] then 0
          else of_int \<lfloor>of_int (sum_list (map wordCount_or_0 (entries j))) /
                         (of_nat (length (entries j)) :: rat) + 1 / 2\<rfloor>)"
  by (simp add: calculateAverageMood_def getAverageWordsPerEntry_def js_div_def foldl_plus_sum)

theorem averages_computed_witness:
  "calculateAverageMood logged_twice_today = Num 4 \<and>
   getAverageWordsPerEntry written_twice_today = Num 2 \<and>
   calculateAverageMood \<lparr>currentMood = None, selectedFactors = [], moodHistory = []\<rparr> = Num 0"
  using averages_computed [of logged_twice_today written_twice_today]
    averages_computed [of "\<lparr>currentMood = None, selectedFactors = [], moodHistory = []\<rparr>"
      written_twice_today]
  by (simp add: logged_twice_today_def written_twice_today_def mood_logged_at_def written_at_def
      wordCount_or_0_def floor_eq_iff)

text \<open>
  Claim C7 as it is stated fails for the journal: with word counts 1 and 2 the arithmetic
  mean is 3/2 and \<^verbatim>\<open>getAverageWordsPerEntry\<close> returns 2.
\<close>

theorem average_words_is_rounded:
  "getAverageWordsPerEntry
     \<lparr>entries = [written_at (19738 * msPerDay) 1, written_at (19737 * msPerDay) 2],
      currentEntry = None, isEditing = False\<rparr> = Num 2 \<and>
   Num 2 \<noteq> Num ((1 + 2) / 2)"
  by (simp add: getAverageWordsPerEntry_def js_div_def written_at_def wordCount_or_0_def)

subsection \<open>Facts about the activity stores\<close>


lemma journal_of_journal_with:
  "journal_of (journal_with es) = \<lparr>entries = es, currentEntry = None, isEditing = False\<rparr>"
proof -
  have "map (\<lambda>r. if r < length es then es ! r else d) [0..<length es] = es" for d :: journal_entry
    by (rule nth_equalityI) simp_all
  then show ?thesis by (simp add: journal_of_def journal_with_def)
qed

text \<open>
  After \<^verbatim>\<open>startNewEntry\<close> the current entry is an object that is not in the list, as
  long as the list holds addresses in use only.
\<close>

lemma startNewEntry_current_is_new:
  assumes "\<forall>r\<in>set (this_entries s). r < fresh s"
  shows "this_currentEntry (startNewEntry present s) = Some (fresh s)"
    and "fresh s \<notin> set (this_entries (startNewEntry present s))"
    and "\<not> this_isEditing (startNewEntry present s)"
  using assms by (auto simp: startNewEntry_def new_object_def)





subsection \<open>Facts about loading from storage\<close>

text \<open>
  The three guarded loaders return the empty array on a stored text that does not parse;
  being total functions into \<open>json\<close>, they have no exception to pass on.  The
  constructor of \<^verbatim>\<open>ResourcesManager\<close> and \<^verbatim>\<open>loadUserProgress\<close> pass the
  \<^verbatim>\<open>SyntaxError\<close> on.
\<close>

lemma load_guarded_cases:
  "load_guarded key st =
     (case st key of
        None \<Rightarrow> JArray []
      | Some saved \<Rightarrow>
          if saved = [] then JArray []
          else (case JSON_parse saved of Inl error \<Rightarrow> JArray [] | Inr v \<Rightarrow> v))"
  by (simp add: load_guarded_def load_body_def split: option.splits)

lemma guarded_loads_on_malformed:
  assumes "JSON_parse saved = Inl error"
  shows "st ''chillbuddy_journal_entries'' = Some saved \<Longrightarrow> loadEntries st = JArray []"
    and "st ''chillbuddy_mood_history'' = Some saved \<Longrightarrow> loadMoodHistory st = JArray []"
    and "st ''chillbuddy_exercise_history'' = Some saved \<Longrightarrow> loadExerciseHistory st = JArray []"
  using assms
  by (simp_all add: loadEntries_def loadMoodHistory_def loadExerciseHistory_def load_guarded_cases)

lemma unguarded_loads_on_malformed:
  assumes "JSON_parse saved = Inl error" and "saved \<noteq> []"
  shows "st ''favoriteResources'' = Some saved \<Longrightarrow> ResourcesManager_constructor st = Inl error"
    and "st ''journalEntries'' = Some saved \<Longrightarrow> loadUserProgress ccd st = Inl error"
  using assms
  by (simp_all add: ResourcesManager_constructor_def loadUserProgress_def parse_or_def and_then_def)

lemma parse_open_brace: "JSON_parse ''{'' = Inl SyntaxError"
  by code_simp

text \<open>
  Claim C4 at the input where it fails.  With the text \<^verbatim>\<open>{\<close> stored under its key,
  \<^verbatim>\<open>JournalSystem.loadEntries\<close> yields the empty array, but the constructor of
  \<^verbatim>\<open>ResourcesManager\<close> and \<^verbatim>\<open>RewardPreview.loadUserProgress\<close>, which call
  \<^verbatim>\<open>JSON.parse\<close> outside of any \<^verbatim>\<open>try\<close>, end in the \<^verbatim>\<open>SyntaxError\<close>.
\<close>

theorem unguarded_parse_throws:
  "loadEntries [''chillbuddy_journal_entries'' \<mapsto> ''{''] = JArray [] \<and>
   ResourcesManager_constructor [''favoriteResources'' \<mapsto> ''{''] = Inl SyntaxError \<and>
   loadUserProgress ccd [''journalEntries'' \<mapsto> ''{''] = Inl SyntaxError"
  by (simp add: loadEntries_def load_guarded_cases ResourcesManager_constructor_def
      loadUserProgress_def parse_or_def and_then_def parse_open_brace)

subsection \<open>Facts about the reward preview\<close>

text \<open>
  Every badge update of a run of \<^verbatim>\<open>loadUserProgress\<close> that completes has
  \<^verbatim>\<open>0 <= current <= total\<close>, and its ratio \<^verbatim>\<open>current / total\<close> lies between 0 and 1.
\<close>

lemma fraction_ok_ratio:
  "fraction_ok u \<Longrightarrow>
   \<exists>r. progressRatio u = Num r \<and> 0 \<le> r \<and> r \<le> 1 \<and>
       r = of_int (bu_current u) / of_int (bu_total u)"
  by (simp add: fraction_ok_def progressRatio_def js_div_def)

lemma journal_updates_ok: "journal_updates ccd js = Inr us \<Longrightarrow> list_all fraction_ok us"
  by (auto simp: journal_updates_def fraction_ok_def split: if_splits sum.splits)

lemma mood_updates_ok: "mood_updates ccd ms = Inr us \<Longrightarrow> list_all fraction_ok us"
  by (auto simp: mood_updates_def fraction_ok_def split: if_splits sum.splits)

lemma exercise_updates_ok: "exercise_updates cs = Inr us \<Longrightarrow> list_all fraction_ok us"
  by (auto simp: exercise_updates_def fraction_ok_def Let_def split: if_splits)

lemma and_then_Inr: "and_then r f = Inr y \<Longrightarrow> \<exists>v. r = Inr v \<and> f v = Inr y"
  by (cases r) (simp_all add: and_then_def)

lemma loadUserProgress_fractions:
  assumes "loadUserProgress ccd st = Inr us"
  shows "list_all fraction_ok us"
proof -
  from assms obtain js ms cs us1 us2 us3 where
    "journal_updates ccd js = Inr us1" "mood_updates ccd ms = Inr us2"
    "exercise_updates cs = Inr us3" "us = us1 @ us2 @ us3"
    unfolding loadUserProgress_def
    by (auto dest!: and_then_Inr)
  then show ?thesis
    by (simp add: journal_updates_ok mood_updates_ok exercise_updates_ok)
qed

subsection \<open>Facts about the aggregation as a whole\<close>

lemma loadUserProgress_reads:
  assumes "st ''journalEntries'' = st' ''journalEntries''"
    and "st ''moodHistory'' = st' ''moodHistory''"
    and "st ''exerciseProgress'' = st' ''exerciseProgress''"
  shows "loadUserProgress ccd st = loadUserProgress ccd st'"
  using assms by (simp add: loadUserProgress_def)

text \<open>
  Claim C9.  The aggregation reads nothing but its input: the averages depend only on
  the stored history, the streaks only on the history and on the present calendar day,
  the rendered badge percentage only on the item's \<^verbatim>\<open>current\<close> and \<^verbatim>\<open>target\<close>, the
  badge updates of the reward preview only on the three stored texts it reads.  None of
  these functions writes to the state it reads, so a second run on the unchanged input,
  on the same day, yields the same output as the first.
\<close>

theorem aggregation_deterministic:
  assumes "moodHistory t = moodHistory t'"
    and "entries j = entries j'"
    and "dayOf present = dayOf present'"
    and "current p = current p'" and "target p = target p'"
    and "st ''journalEntries'' = st' ''journalEntries''"
    and "st ''moodHistory'' = st' ''moodHistory''"
    and "st ''exerciseProgress'' = st' ''exerciseProgress''"
  shows "calculateAverageMood t = calculateAverageMood t' \<and>
         calculateStreak present t = calculateStreak present' t' \<and>
         getAverageWordsPerEntry j = getAverageWordsPerEntry j' \<and>
         getStreak present j = getStreak present' j' \<and>
         progressPercentage p = progressPercentage p' \<and>
         loadUserProgress ccd st = loadUserProgress ccd st'"
proof (intro conjI)
  show "calculateAverageMood t = calculateAverageMood t'"
    using assms(1) by (simp add: calculateAverageMood_def)
  show "calculateStreak present t = calculateStreak present' t'"
    using assms(1,3) by (simp add: calculateStreak_days)
  show "getAverageWordsPerEntry j = getAverageWordsPerEntry j'"
    using assms(2) by (simp add: getAverageWordsPerEntry_def)
  show "getStreak present j = getStreak present' j'"
    using assms(2,3) by (simp add: getStreak_days)
  show "progressPercentage p = progressPercentage p'"
    using assms(4,5) by (simp add: progressPercentage_def)
  show "loadUserProgress ccd st = loadUserProgress ccd st'"
    using assms(6-8) by (rule loadUserProgress_reads)
qed

theorem aggregation_deterministic_witness:
  "calculateAverageMood (logged_twice_today\<lparr>selectedFactors := [''sleep'']\<rparr>) =
     calculateAverageMood logged_twice_today \<and>
   calculateStreak (example_present + 3600000) (logged_twice_today\<lparr>selectedFactors := [''sleep'']\<rparr>) =
     calculateStreak example_present logged_twice_today \<and>
   getAverageWordsPerEntry (written_twice_today\<lparr>isEditing := True\<rparr>) =
     getAverageWordsPerEntry written_twice_today \<and>
   getStreak (example_present + 3600000) (written_twice_today\<lparr>isEditing := True\<rparr>) =
     getStreak example_present written_twice_today \<and>
   progressPercentage (resource_explorer\<lparr>badgeName := ''Explorer''\<rparr>) =
     progressPercentage resource_explorer \<and>
   loadUserProgress (\<lambda>es. Inr 1) [''journalEntries'' \<mapsto> ''[{}]'', ''theme'' \<mapsto> ''dark''] =
     loadUserProgress (\<lambda>es. Inr 1) [''journalEntries'' \<mapsto> ''[{}]'']"
proof -
  have d: "dayOf (example_present + 3600000) = dayOf example_present"
    by (simp add: dayOf_def example_present_def msPerDay_def)
  show ?thesis
    by (rule aggregation_deterministic) (simp_all add: d)
qed

subsection \<open>Facts about the chat client\<close>

text \<open>
  Claim C6, as amended.  \<^verbatim>\<open>getChillBuddyResponse\<close> always returns a value.  When \<^verbatim>\<open>fetch\<close>
  rejects, the value is the connection message.  For a response with a status outside of
  200 to 299 whose body arrives, the value is fixed by the status alone: the
  authentication message for 401, the slow-down message for 429, the
  technical-difficulties message for every status of 500 or above, the generic apology
  otherwise.  When the connection breaks while the body is read, the value is the
  connection message again.  Exactly one call of \<^verbatim>\<open>fetch\<close> is made: there is no retry.
\<close>

theorem chat_error_replies:
  "(outcome net (calls net) = Rejected \<longrightarrow>
      fst (getChillBuddyResponse net) = JString msg_connecting) \<and>
   (outcome net (calls net) = Resolved r \<and> \<not> ok r \<and> body r = Some errorText \<longrightarrow>
      fst (getChillBuddyResponse net) =
        JString (if status r = 401 then msg_authenticate
                 else if status r = 429 then msg_slow_down
                 else if 500 \<le> status r then msg_technical
                 else msg_sorry)) \<and>
   (outcome net (calls net) = Resolved r \<and> body r = None \<longrightarrow>
      fst (getChillBuddyResponse net) = JString msg_connecting) \<and>
   snd (getChillBuddyResponse net) = net\<lparr>calls := Suc (calls net)\<rparr>"
  by (auto simp: getChillBuddyResponse_def fetch_def respond_def)

theorem chat_error_replies_witness:
  "fst (getChillBuddyResponse unreachable) = JString msg_connecting \<and>
   fst (getChillBuddyResponse (answers_with 401 (Some ''{\"error\": \"no\"}''))) = JString msg_authenticate \<and>
   fst (getChillBuddyResponse (answers_with 429 (Some []))) = JString msg_slow_down \<and>
   fst (getChillBuddyResponse (answers_with 503 (Some ''Service Unavailable''))) = JString msg_technical \<and>
   fst (getChillBuddyResponse (answers_with 404 (Some ''Not Found''))) = JString msg_sorry \<and>
   fst (getChillBuddyResponse (answers_with 500 None)) = JString msg_connecting \<and>
   calls (snd (getChillBuddyResponse unreachable)) = 1"
proof -
  have r: "outcome unreachable (calls unreachable) = Rejected"
    by (simp add: unreachable_def)
  have o: "outcome (answers_with code b) (calls (answers_with code b)) =
      Resolved \<lparr>status = code, statusText = [], body = b\<rparr>" for code b
    by (simp add: answers_with_def)
  have h: "outcome (answers_with code (Some b)) (calls (answers_with code (Some b))) =
        Resolved \<lparr>status = code, statusText = [], body = Some b\<rparr> \<and>
      \<not> ok \<lparr>status = code, statusText = [], body = Some b\<rparr> \<and>
      body \<lparr>status = code, statusText = [], body = Some b\<rparr> = Some b"
    if "code < 200 \<or> 299 < code" for code b
    using that by (auto simp: o ok_def)
  have n: "outcome (answers_with 500 None) (calls (answers_with 500 None)) =
        Resolved \<lparr>status = 500, statusText = [], body = None\<rparr> \<and>
      body \<lparr>status = 500, statusText = [], body = None\<rparr> = None"
    by (simp add: o)
  from chat_error_replies [of unreachable] r
  have a: "fst (getChillBuddyResponse unreachable) = JString msg_connecting"
    and g: "snd (getChillBuddyResponse unreachable) = unreachable\<lparr>calls := Suc (calls unreachable)\<rparr>"
    by blast+
  from chat_error_replies [of "answers_with 401 (Some ''{\"error\": \"no\"}'')"
      "\<lparr>status = 401, statusText = [], body = Some ''{\"error\": \"no\"}''\<rparr>"] h [of 401]
  have b: "fst (getChillBuddyResponse (answers_with 401 (Some ''{\"error\": \"no\"}''))) =
      JString msg_authenticate" by simp
  from chat_error_replies [of "answers_with 429 (Some [])"
      "\<lparr>status = 429, statusText = [], body = Some []\<rparr>"] h [of 429]
  have c: "fst (getChillBuddyResponse (answers_with 429 (Some []))) = JString msg_slow_down"
    by simp
  from chat_error_replies [of "answers_with 503 (Some ''Service Unavailable'')"
      "\<lparr>status = 503, statusText = [], body = Some ''Service Unavailable''\<rparr>"] h [of 503]
  have d: "fst (getChillBuddyResponse (answers_with 503 (Some ''Service Unavailable''))) =
      JString msg_technical" by simp
  from chat_error_replies [of "answers_with 404 (Some ''Not Found'')"
      "\<lparr>status = 404, statusText = [], body = Some ''Not Found''\<rparr>"] h [of 404]
  have e: "fst (getChillBuddyResponse (answers_with 404 (Some ''Not Found''))) = JString msg_sorry"
    by simp
  from chat_error_replies [of "answers_with 500 None"
      "\<lparr>status = 500, statusText = [], body = None\<rparr>"] n
  have f: "fst (getChillBuddyResponse (answers_with 500 None)) = JString msg_connecting"
    by blast
  have k: "calls (snd (getChillBuddyResponse unreachable)) = 1"
    unfolding g by (simp add: unreachable_def)
  show ?thesis using a b c d e f k by simp
qed

text \<open>
  Claim C6 as it is stated fails for a response whose body cannot be read: the body is
  awaited before the status is looked at, so a response with status 500 gives the
  connection message, not the technical-difficulties message of its status class.
\<close>

theorem status_reply_needs_body:
  "\<not> ok \<lparr>status = 500, statusText = ''Internal Server Error'', body = None\<rparr> \<and>
   fst (getChillBuddyResponse
          \<lparr>outcome = (\<lambda>k. Resolved \<lparr>status = 500, statusText = ''Internal Server Error'',
                                     body = None\<rparr>),
           calls = 0\<rparr>) = JString msg_connecting \<and>
   JString msg_connecting \<noteq> JString msg_technical"
  by (simp add: getChillBuddyResponse_def fetch_def respond_def ok_def msg_connecting_def
      msg_technical_def)

end
